theory Spec2Isabelle
  imports Main
begin

section \<open>JavaScript values\<close>

text \<open>
  The handlers of \<^verbatim>\<open>backend/src/app.js\<close> read fields of a parsed JSON body and test
  them with \<^verbatim>\<open>!x\<close>, \<^verbatim>\<open>x !== undefined\<close>, \<^verbatim>\<open>Boolean(x)\<close> and \<^verbatim>\<open>String(x)\<close>, so a
  request field is a JavaScript value and not a typed string. Reading a property
  that the body does not have gives \<^verbatim>\<open>undefined\<close>.

  The code does two things with a number of a body: it tests whether it is truthy
  (not zero) and it prints it with \<^verbatim>\<open>String\<close>. An integer of absolute value below
  \<open>10^21\<close>, which JavaScript prints in plain decimal digits, is \<open>JNum n\<close>. Any other
  number (a fraction, or a magnitude from \<open>10^21\<close> on, printed in exponent notation)
  is \<open>JDecimal s\<close>, where \<open>s\<close> is the text that \<^verbatim>\<open>String\<close> prints for it, such as
  \<^verbatim>\<open>1.5\<close> or \<^verbatim>\<open>1e+21\<close>; such a number is never zero.

  A string is a list of code units below 256 (Latin-1), so \<open>CHR 0xE1\<close> is the letter
  a with an acute accent.
\<close>

datatype jsval =
    JUndefined
  | JNull
  | JBool bool
  | JNum int
  | JDecimal string
  | JStr string
  | JArr "jsval list"
  | JObj "(string \<times> jsval) list"

text \<open>
  A number that is not part of a body: the result of \<^verbatim>\<open>Number(s)\<close> for a string \<open>s\<close>
  (the \<^verbatim>\<open>:id\<close> route parameter, the \<^verbatim>\<open>PORT\<close> variable). It is \<^verbatim>\<open>NaN\<close>, an integer, one of
  the two infinities, or a finite number that is not an integer: \<open>Fraction k\<close> lies
  strictly between \<open>k\<close> and \<open>k + 1\<close>. The code only tests such a number with
  \<^verbatim>\<open>Number.isNaN\<close> and \<^verbatim>\<open>||\<close> and hands it on, so the digits of a fraction are not kept.
  The conversion \<^verbatim>\<open>Number(s)\<close> itself is a built-in of the language and is taken as
  given.
\<close>

datatype js_number = NaN | Num int | Fraction int | PlusInfinity | MinusInfinity

text \<open>\<^verbatim>\<open>Boolean(v)\<close>, and the test of \<^verbatim>\<open>!v\<close>, \<^verbatim>\<open>a || b\<close>.\<close>

fun truthy :: "jsval \<Rightarrow> bool" where
  "truthy JUndefined = False"
| "truthy JNull = False"
| "truthy (JBool b) = b"
| "truthy (JNum n) = (n \<noteq> 0)"
| "truthy (JDecimal s) = True"
| "truthy (JStr s) = (s \<noteq> [])"
| "truthy (JArr xs) = True"
| "truthy (JObj kvs) = True"

definition falsy :: "jsval \<Rightarrow> bool" where
  "falsy v = (\<not> truthy v)"

subsection \<open>Thrown errors\<close>

text \<open>A thrown value: an \<^verbatim>\<open>Error\<close> with its name and message, and the \<^verbatim>\<open>code\<close>
  property that the store's known request errors carry.\<close>

datatype js_error = JsError (err_code: "string option") (err_name: string) (err_message: string)

text \<open>\<^verbatim>\<open>String(e)\<close> of an error.\<close>

definition error_String :: "js_error \<Rightarrow> string" where
  "error_String e =
     (if err_message e = [] then err_name e else err_name e @ '': '' @ err_message e)"

text \<open>\<^verbatim>\<open>String(e?.message || e)\<close>.\<close>

definition error_detail :: "js_error \<Rightarrow> string" where
  "error_detail e = (if err_message e \<noteq> [] then err_message e else error_String e)"

subsection \<open>\<^verbatim>\<open>String(v)\<close> and \<^verbatim>\<open>trim\<close>\<close>

text \<open>The decimal digit \<open>d\<close>, for \<open>d < 10\<close>.\<close>

definition digit_char :: "nat \<Rightarrow> char" where
  "digit_char d = ''0123456789'' ! d"

fun show_nat :: "nat \<Rightarrow> string" where
  "show_nat n = (if n < 10 then [digit_char n] else show_nat (n div 10) @ [digit_char (n mod 10)])"

declare show_nat.simps [simp del]

definition show_int :: "int \<Rightarrow> string" where
  "show_int i = (if i < 0 then CHR ''-'' # show_nat (nat (- i)) else show_nat (nat i))"

fun join_comma :: "string list \<Rightarrow> string" where
  "join_comma [] = []"
| "join_comma [s] = s"
| "join_comma (s # t # ts) = s @ CHR '','' # join_comma (t # ts)"

text \<open>The \<^verbatim>\<open>TypeError\<close> of a conversion to a primitive value that finds no method to
  call.\<close>

definition primitive_error :: js_error where
  "primitive_error = JsError None ''TypeError'' ''Cannot convert object to primitive value''"

text \<open>
  \<^verbatim>\<open>String(v)\<close>: the string, or the error thrown.
  \<^item> An object parsed from JSON has only data properties. Without an own property
    named \<^verbatim>\<open>toString\<close> it inherits \<^verbatim>\<open>Object.prototype.toString\<close> and prints as
    \<^verbatim>\<open>[object Object]\<close>. With one, that property is not a function, so the conversion
    goes on to \<^verbatim>\<open>valueOf\<close>, which gives no primitive value (the inherited one returns
    the object, an own one is not a function), and a \<^verbatim>\<open>TypeError\<close> is thrown.
  \<^item> An array is joined with commas; \<^verbatim>\<open>null\<close> and \<^verbatim>\<open>undefined\<close> elements print as the
    empty string, and the conversion of any other element may throw.
  \<^item> An integer below \<open>10^21\<close> prints in decimal digits; any other number carries
    its text.
\<close>

fun js_String :: "jsval \<Rightarrow> js_error + string"
  and js_elements :: "jsval list \<Rightarrow> js_error + string list" where
  "js_String JUndefined = Inr ''undefined''"
| "js_String JNull = Inr ''null''"
| "js_String (JBool b) = Inr (if b then ''true'' else ''false'')"
| "js_String (JNum n) = Inr (show_int n)"
| "js_String (JDecimal s) = Inr s"
| "js_String (JStr s) = Inr s"
| "js_String (JArr xs) =
     (case js_elements xs of Inl e \<Rightarrow> Inl e | Inr ss \<Rightarrow> Inr (join_comma ss))"
| "js_String (JObj kvs) =
     (if ''toString'' \<in> set (map fst kvs) then Inl primitive_error
      else Inr ''[object Object]'')"
| "js_elements [] = Inr []"
| "js_elements (x # xs) =
     (case (if x = JUndefined \<or> x = JNull then Inr [] else js_String x) of
        Inl e \<Rightarrow> Inl e
      | Inr s \<Rightarrow> (case js_elements xs of Inl e \<Rightarrow> Inl e | Inr ss \<Rightarrow> Inr (s # ss)))"

text \<open>The white space and line terminators that \<^verbatim>\<open>String.prototype.trim\<close> removes,
  among the code units below 256: tab, line feed, vertical tab, form feed, carriage
  return, space and the no-break space.\<close>

definition is_space :: "char \<Rightarrow> bool" where
  "is_space c = (c \<in> set [CHR 0x09, CHR 0x0A, CHR 0x0B, CHR 0x0C, CHR 0x0D, CHR 0x20, CHR 0xA0])"

definition js_trim :: "string \<Rightarrow> string" where
  "js_trim s = rev (dropWhile is_space (rev (dropWhile is_space s)))"

text \<open>\<^verbatim>\<open>s.split(" ")\<close>: the pieces between the separators; never the empty list.\<close>

fun js_split :: "char \<Rightarrow> string \<Rightarrow> string list" where
  "js_split sep [] = [[]]"
| "js_split sep (c # cs) =
     (if c = sep then [] # js_split sep cs
      else (case js_split sep cs of
              [] \<Rightarrow> [[c]]
            | p # ps \<Rightarrow> (c # p) # ps))"

fun startsWith :: "string \<Rightarrow> string \<Rightarrow> bool" where
  "startsWith s [] = True"
| "startsWith [] (p # ps) = False"
| "startsWith (c # cs) (p # ps) = (c = p \<and> startsWith cs ps)"

text \<open>\<^verbatim>\<open>s.includes(p)\<close>.\<close>

fun js_includes :: "string \<Rightarrow> string \<Rightarrow> bool" where
  "js_includes [] p = (p = [])"
| "js_includes (c # cs) p = (startsWith (c # cs) p \<or> js_includes cs p)"

text \<open>Whether a property named \<open>k\<close> occurs in a value, at any depth: in an object, as one
  of its properties or inside the value of one; in an array, inside an element.\<close>

fun has_key :: "string \<Rightarrow> jsval \<Rightarrow> bool"
  and has_key_props :: "string \<Rightarrow> (string \<times> jsval) list \<Rightarrow> bool"
  and has_key_elems :: "string \<Rightarrow> jsval list \<Rightarrow> bool" where
  "has_key k JUndefined = False"
| "has_key k JNull = False"
| "has_key k (JBool b) = False"
| "has_key k (JNum n) = False"
| "has_key k (JDecimal s) = False"
| "has_key k (JStr s) = False"
| "has_key k (JArr xs) = has_key_elems k xs"
| "has_key k (JObj kvs) = has_key_props k kvs"
| "has_key_props k [] = False"
| "has_key_props k (p # ps) = (fst p = k \<or> has_key k (snd p) \<or> has_key_props k ps)"
| "has_key_elems k [] = False"
| "has_key_elems k (x # xs) = (has_key k x \<or> has_key_elems k xs)"

section \<open>The store\<close>

text \<open>
  Modelled from the spec: the relational store behind the Prisma client. Its schema
  (\<^verbatim>\<open>prisma/schema.prisma\<close>) is not among the sources, so the rows follow the data
  model of the specification and the fields the code reads and writes: a user has an
  id, a unique email, a password field, a name, a role and a creation time (and the
  company reference the seed script sets); a task has an id, a title, a completed
  flag (default false), an owner that must reference a user, and creation and update
  times. Ids and times are integers; the clock is an argument of the operations that
  stamp a row. The integer type of the id columns is not known either: its least
  and greatest value are the fields \<open>id_min\<close> and \<open>id_max\<close> of the store.

  Every client call the code makes is one operation below. A call with an argument
  of the wrong type for its column (a title or email that is not a string, an id
  that is not an integer of the id type), a second user with an email already
  stored, a task for a user that does not exist and an update or delete of a row
  that does not exist fail, as a thrown error.
\<close>

record user =
  u_id :: int
  u_email :: string
  u_password :: string
  u_name :: string
  u_role :: string
  u_createdAt :: int
  u_companyId :: "int option"

record task =
  t_id :: int
  t_title :: string
  t_completed :: bool
  t_userId :: int
  t_createdAt :: int
  t_updatedAt :: int

record company =
  c_id :: int
  c_name :: string

record db =
  users :: "user list"
  tasks :: "task list"
  companies :: "company list"
  next_user_id :: int
  next_task_id :: int
  next_company_id :: int
  id_min :: int
  id_max :: int

definition validation_error :: js_error where
  "validation_error = JsError None ''PrismaClientValidationError'' ''Invalid value provided''"

definition unique_error :: js_error where
  "unique_error =
     JsError (Some ''P2002'') ''PrismaClientKnownRequestError''
       ''Unique constraint failed on the fields: (email)''"

definition foreign_key_error :: js_error where
  "foreign_key_error =
     JsError (Some ''P2003'') ''PrismaClientKnownRequestError''
       ''Foreign key constraint failed on the field: userId''"

definition not_found_error :: js_error where
  "not_found_error =
     JsError (Some ''P2025'') ''PrismaClientKnownRequestError''
       ''Record to update or delete does not exist''"

definition default_role :: string where
  "default_role = ''USER''"

text \<open>Whether an integer is one of the id type, and a number given for an id column:
  the integer it is, when it is one of the id type, and the validation error
  otherwise.\<close>

definition id_fits :: "db \<Rightarrow> int \<Rightarrow> bool" where
  "id_fits d i = (id_min d \<le> i \<and> i \<le> id_max d)"

definition id_arg :: "db \<Rightarrow> js_number \<Rightarrow> js_error + int" where
  "id_arg d n =
     (case n of
        Num i \<Rightarrow> if id_fits d i then Inr i else Inl validation_error
      | _ \<Rightarrow> Inl validation_error)"

text \<open>\<^verbatim>\<open>select: { id: true, email: true, name: true, role: true, createdAt: true }\<close>,
  which is also the object literal the login handler builds by hand.\<close>

definition user_select :: "user \<Rightarrow> jsval" where
  "user_select u =
     JObj [(''id'', JNum (u_id u)), (''email'', JStr (u_email u)), (''name'', JStr (u_name u)),
           (''role'', JStr (u_role u)), (''createdAt'', JNum (u_createdAt u))]"

definition task_row :: "task \<Rightarrow> jsval" where
  "task_row t =
     JObj [(''id'', JNum (t_id t)), (''title'', JStr (t_title t)),
           (''completed'', JBool (t_completed t)), (''userId'', JNum (t_userId t)),
           (''createdAt'', JNum (t_createdAt t)), (''updatedAt'', JNum (t_updatedAt t))]"

text \<open>\<^verbatim>\<open>prisma.user.findMany()\<close>.\<close>

definition user_findMany :: "db \<Rightarrow> user list" where
  "user_findMany d = users d"

text \<open>\<^verbatim>\<open>prisma.user.findUnique({ where: { email } })\<close>.\<close>

definition user_findUnique_email :: "db \<Rightarrow> jsval \<Rightarrow> js_error + user option" where
  "user_findUnique_email d e =
     (case e of
        JStr s \<Rightarrow> Inr (find (\<lambda>u. u_email u = s) (users d))
      | _ \<Rightarrow> Inl validation_error)"

text \<open>\<^verbatim>\<open>prisma.user.findUnique({ where: { id } })\<close>.\<close>

definition user_findUnique_id :: "db \<Rightarrow> int \<Rightarrow> js_error + user option" where
  "user_findUnique_id d i =
     (case id_arg d (Num i) of
        Inl e \<Rightarrow> Inl e
      | Inr i' \<Rightarrow> Inr (find (\<lambda>u. u_id u = i') (users d)))"

text \<open>\<^verbatim>\<open>prisma.user.create({ data: { email, password, name, role?, companyId? } })\<close> at
  time \<open>now\<close>.\<close>

definition user_create ::
  "db \<Rightarrow> int \<Rightarrow> jsval \<Rightarrow> jsval \<Rightarrow> jsval \<Rightarrow> string option \<Rightarrow> int option \<Rightarrow> js_error + (user \<times> db)" where
  "user_create d now e p n r c =
     (case (e, p, n) of
        (JStr email, JStr password, JStr name) \<Rightarrow>
          if find (\<lambda>u. u_email u = email) (users d) \<noteq> None then Inl unique_error
          else
            let u = \<lparr>u_id = next_user_id d, u_email = email, u_password = password,
                     u_name = name,
                     u_role = (case r of None \<Rightarrow> default_role | Some role \<Rightarrow> role),
                     u_createdAt = now, u_companyId = c\<rparr>
            in Inr (u, d\<lparr>users := users d @ [u], next_user_id := next_user_id d + 1\<rparr>)
      | _ \<Rightarrow> Inl validation_error)"

text \<open>\<^verbatim>\<open>prisma.company.create({ data: { name } })\<close>.\<close>

definition company_create :: "db \<Rightarrow> string \<Rightarrow> company \<times> db" where
  "company_create d n =
     (let c = \<lparr>c_id = next_company_id d, c_name = n\<rparr>
      in (c, d\<lparr>companies := companies d @ [c], next_company_id := next_company_id d + 1\<rparr>))"

text \<open>\<^verbatim>\<open>prisma.task.findMany({ where: { userId }, orderBy: { createdAt: "desc" } })\<close>.\<close>

definition task_findMany :: "db \<Rightarrow> int \<Rightarrow> js_error + task list" where
  "task_findMany d uid =
     (case id_arg d (Num uid) of
        Inl e \<Rightarrow> Inl e
      | Inr u \<Rightarrow> Inr (sort_key (\<lambda>t. - t_createdAt t) (filter (\<lambda>t. t_userId t = u) (tasks d))))"

text \<open>\<^verbatim>\<open>prisma.task.findFirst({ where: { id, userId } })\<close>.\<close>

definition task_findFirst :: "db \<Rightarrow> js_number \<Rightarrow> int \<Rightarrow> js_error + task option" where
  "task_findFirst d n uid =
     (case id_arg d n of
        Inl e \<Rightarrow> Inl e
      | Inr i \<Rightarrow>
          (case id_arg d (Num uid) of
             Inl e \<Rightarrow> Inl e
           | Inr u \<Rightarrow> Inr (find (\<lambda>t. t_id t = i \<and> t_userId t = u) (tasks d))))"

text \<open>\<^verbatim>\<open>prisma.task.create({ data: { title, userId } })\<close> at time \<open>now\<close>.\<close>

definition task_create :: "db \<Rightarrow> int \<Rightarrow> jsval \<Rightarrow> int \<Rightarrow> js_error + (task \<times> db)" where
  "task_create d now title uid =
     (case title of
        JStr s \<Rightarrow>
          (case id_arg d (Num uid) of
             Inl e \<Rightarrow> Inl e
           | Inr u \<Rightarrow>
               if find (\<lambda>x. u_id x = u) (users d) = None then Inl foreign_key_error
               else
                 let t = \<lparr>t_id = next_task_id d, t_title = s, t_completed = False, t_userId = u,
                          t_createdAt = now, t_updatedAt = now\<rparr>
                 in Inr (t, d\<lparr>tasks := tasks d @ [t], next_task_id := next_task_id d + 1\<rparr>))
      | _ \<Rightarrow> Inl validation_error)"

text \<open>The \<^verbatim>\<open>data\<close> object of an update: its own properties in order.\<close>

type_synonym update_data = "(string \<times> jsval) list"

definition data_ok :: "update_data \<Rightarrow> bool" where
  "data_ok data =
     ((case map_of data ''title'' of None \<Rightarrow> True | Some (JStr s) \<Rightarrow> True | Some _ \<Rightarrow> False) \<and>
      (case map_of data ''completed'' of None \<Rightarrow> True | Some (JBool b) \<Rightarrow> True | Some _ \<Rightarrow> False))"

definition apply_data :: "update_data \<Rightarrow> int \<Rightarrow> task \<Rightarrow> task" where
  "apply_data data now t =
     t\<lparr>t_title := (case map_of data ''title'' of Some (JStr s) \<Rightarrow> s | _ \<Rightarrow> t_title t),
       t_completed := (case map_of data ''completed'' of Some (JBool b) \<Rightarrow> b | _ \<Rightarrow> t_completed t),
       t_updatedAt := now\<rparr>"

text \<open>\<^verbatim>\<open>prisma.task.update({ where: { id }, data })\<close> at time \<open>now\<close>.\<close>

definition task_update ::
  "db \<Rightarrow> int \<Rightarrow> js_number \<Rightarrow> update_data \<Rightarrow> js_error + (task \<times> db)" where
  "task_update d now n data =
     (case id_arg d n of
        Inl e \<Rightarrow> Inl e
      | Inr i \<Rightarrow>
          if \<not> data_ok data then Inl validation_error
          else
            (case find (\<lambda>t. t_id t = i) (tasks d) of
               None \<Rightarrow> Inl not_found_error
             | Some t \<Rightarrow>
                 Inr (apply_data data now t,
                      d\<lparr>tasks := map (\<lambda>x. if t_id x = i then apply_data data now x else x)
                                      (tasks d)\<rparr>)))"

text \<open>\<^verbatim>\<open>prisma.task.delete({ where: { id } })\<close>.\<close>

definition task_delete :: "db \<Rightarrow> js_number \<Rightarrow> js_error + db" where
  "task_delete d n =
     (case id_arg d n of
        Inl e \<Rightarrow> Inl e
      | Inr i \<Rightarrow>
          (case find (\<lambda>t. t_id t = i) (tasks d) of
             None \<Rightarrow> Inl not_found_error
           | Some t \<Rightarrow> Inr (d\<lparr>tasks := filter (\<lambda>x. t_id x \<noteq> i) (tasks d)\<rparr>)))"

section \<open>Configuration and collaborators\<close>

text \<open>The environment variables \<^verbatim>\<open>app.js\<close> reads. \<open>env_PORT\<close> is the value of
  \<^verbatim>\<open>Number(process.env.PORT)\<close>; a variable that is not set is \<open>None\<close>.\<close>

record process_env =
  env_PORT :: js_number
  env_NODE_ENV :: "string option"
  env_JWT_SECRET :: "string option"
  env_JWT_EXPIRES_IN :: "string option"

text \<open>\<^verbatim>\<open>x || d\<close> for a string that may be undefined.\<close>

definition or_default :: "string option \<Rightarrow> string \<Rightarrow> string" where
  "or_default x d = (case x of None \<Rightarrow> d | Some s \<Rightarrow> if s = [] then d else s)"

text \<open>\<^verbatim>\<open>Number(process.env.PORT) || 4000\<close>: the numbers that are falsy are \<^verbatim>\<open>NaN\<close> and zero.\<close>

definition PORT :: "process_env \<Rightarrow> js_number" where
  "PORT pe = (if env_PORT pe = NaN \<or> env_PORT pe = Num 0 then Num 4000 else env_PORT pe)"

definition NODE_ENV :: "process_env \<Rightarrow> string" where
  "NODE_ENV pe = or_default (env_NODE_ENV pe) ''development''"

definition JWT_SECRET :: "process_env \<Rightarrow> string" where
  "JWT_SECRET pe = or_default (env_JWT_SECRET pe) []"

definition expiresIn :: "process_env \<Rightarrow> string" where
  "expiresIn pe = or_default (env_JWT_EXPIRES_IN pe) ''7d''"

text \<open>The claims of a session token, and the identity the guard attaches to a request.\<close>

record jwt_payload =
  p_sub :: int
  p_role :: string

record req_user =
  ru_id :: int
  ru_role :: string

text \<open>
  The libraries \<^verbatim>\<open>bcrypt\<close> and \<^verbatim>\<open>jsonwebtoken\<close> are collaborators of the program and
  not part of it: they are arguments of the model, each call returning its value or
  the error it throws. Nothing is assumed about them.
  \<^item> \<open>bcrypt_hash data rounds\<close> is \<^verbatim>\<open>bcrypt.hash(data, rounds)\<close>;
  \<^item> \<open>bcrypt_compare data hash\<close> is \<^verbatim>\<open>bcrypt.compare(data, hash)\<close>;
  \<^item> \<open>jwt_sign payload secret expiresIn\<close> is \<^verbatim>\<open>jwt.sign(payload, secret, { expiresIn })\<close>;
  \<^item> \<open>jwt_verify token secret\<close> is \<^verbatim>\<open>jwt.verify(token, secret)\<close>.
\<close>

record libs =
  bcrypt_hash :: "jsval \<Rightarrow> nat \<Rightarrow> js_error + string"
  bcrypt_compare :: "jsval \<Rightarrow> string \<Rightarrow> js_error + bool"
  jwt_sign :: "jwt_payload \<Rightarrow> string \<Rightarrow> string \<Rightarrow> js_error + string"
  jwt_verify :: "string \<Rightarrow> string \<Rightarrow> js_error + jwt_payload"

section \<open>Requests and responses\<close>

text \<open>What a handler reads of a request: the \<^verbatim>\<open>Authorization\<close> header, the number made
  of the \<^verbatim>\<open>:id\<close> route parameter, and the body parsed by \<^verbatim>\<open>express.json()\<close>, as the
  function from a property name to its value (\<open>JUndefined\<close> for a property the body
  does not have; a request with no JSON body has the empty object).\<close>

record request =
  authorization :: "string option"
  params_id :: js_number
  body :: "string \<Rightarrow> jsval"

text \<open>A response: the status code and the JSON body (none for \<^verbatim>\<open>res.status(204).send()\<close>).\<close>

record response =
  res_status :: nat
  res_body :: "jsval option"

text \<open>What a guarded route does with a request: it sends a response and leaves a
  store (\<open>Inr\<close>), or an error thrown outside every \<^verbatim>\<open>try\<close> escapes from the handler,
  which then has sent no response and changed no row (\<open>Inl\<close>).\<close>

type_synonym outcome = "js_error + response \<times> db"

text \<open>\<^verbatim>\<open>res.status(s).json(v)\<close>; \<^verbatim>\<open>res.json(v)\<close> is status 200.\<close>

definition json_response :: "nat \<Rightarrow> jsval \<Rightarrow> response" where
  "json_response s v = \<lparr>res_status = s, res_body = Some v\<rparr>"

text \<open>\<^verbatim>\<open>{ error: msg }\<close> and \<^verbatim>\<open>{ error: msg, detail: String(e?.message || e) }\<close>.\<close>

definition error_body :: "string \<Rightarrow> jsval" where
  "error_body msg = JObj [(''error'', JStr msg)]"

definition error_detail_body :: "string \<Rightarrow> js_error \<Rightarrow> jsval" where
  "error_detail_body msg e = JObj [(''error'', JStr msg), (''detail'', JStr (error_detail e))]"

definition msg_token_invalido :: string where
  "msg_token_invalido = ''Token inv'' @ [CHR 0xE1] @ ''lido o expirado''"

definition msg_credenciales :: string where
  "msg_credenciales = ''Credenciales inv'' @ [CHR 0xE1] @ ''lidas''"

definition msg_id_invalido :: string where
  "msg_id_invalido = ''id inv'' @ [CHR 0xE1] @ ''lido''"

text \<open>Whether the body of a response has a property named \<open>k\<close> at any depth.\<close>

definition body_has_key :: "string \<Rightarrow> response \<Rightarrow> bool" where
  "body_has_key k r = (case res_body r of None \<Rightarrow> False | Some v \<Rightarrow> has_key k v)"

section \<open>The handlers of \<^verbatim>\<open>app.js\<close>, last revision\<close>

text \<open>
  The file \<^verbatim>\<open>app.js\<close> holds three revisions of the program one after the other; the
  model follows the last. A handler takes the store and returns the response and
  the store after it. The \<^verbatim>\<open>try\<close>/\<^verbatim>\<open>catch\<close> of a handler is the \<open>Inl\<close> branch of each call
  inside it that can throw. The two routes that read no input and touch no row
  (\<^verbatim>\<open>/\<close> and \<^verbatim>\<open>/health\<close>), the CORS allow-list and the signal handlers are left out.
\<close>

definition isPrismaUniqueError :: "js_error \<Rightarrow> bool" where
  "isPrismaUniqueError e = (err_code e = Some ''P2002'')"

text \<open>\<^verbatim>\<open>function auth(req, res, next)\<close>: the response that ends the request, or the
  identity attached to it.\<close>

definition auth :: "libs \<Rightarrow> process_env \<Rightarrow> request \<Rightarrow> response + req_user" where
  "auth L pe req =
     (let header = or_default (authorization req) [];
          parts = js_split CHR '' '' header;
          type = (case parts of [] \<Rightarrow> None | x # _ \<Rightarrow> Some x);
          token = (case parts of _ # y # _ \<Rightarrow> Some y | _ \<Rightarrow> None)
      in case token of
           None \<Rightarrow> Inl (json_response 401 (error_body ''Token requerido (Bearer)''))
         | Some tok \<Rightarrow>
             if type \<noteq> Some ''Bearer'' \<or> tok = []
             then Inl (json_response 401 (error_body ''Token requerido (Bearer)''))
             else (case jwt_verify L tok (JWT_SECRET pe) of
                     Inl e \<Rightarrow> Inl (json_response 401 (error_body msg_token_invalido))
                   | Inr payload \<Rightarrow> Inr \<lparr>ru_id = p_sub payload, ru_role = p_role payload\<rparr>))"

text \<open>A route registered as \<^verbatim>\<open>router.METHOD(path, auth, handler)\<close>.\<close>

definition guarded ::
  "libs \<Rightarrow> process_env \<Rightarrow> (req_user \<Rightarrow> db \<Rightarrow> request \<Rightarrow> outcome) \<Rightarrow>
   db \<Rightarrow> request \<Rightarrow> outcome" where
  "guarded L pe handler d req =
     (case auth L pe req of
        Inl r \<Rightarrow> Inr (r, d)
      | Inr u \<Rightarrow> handler u d req)"

text \<open>\<^verbatim>\<open>router.get("/users", ...)\<close>.\<close>

definition get_users :: "db \<Rightarrow> response \<times> db" where
  "get_users d = (json_response 200 (JArr (map user_select (user_findMany d))), d)"

text \<open>\<^verbatim>\<open>router.post("/users", ...)\<close>, the development-only endpoint.\<close>

definition post_users :: "libs \<Rightarrow> process_env \<Rightarrow> int \<Rightarrow> db \<Rightarrow> request \<Rightarrow> response \<times> db" where
  "post_users L pe now d req =
     (if NODE_ENV pe \<noteq> ''development'' then (json_response 404 (error_body ''Not found''), d)
      else
        let email = body req ''email''; password = body req ''password''; name = body req ''name''
        in if falsy email \<or> falsy password \<or> falsy name
           then (json_response 400 (error_body ''email, password y name son obligatorios''), d)
           else
             let catch = (\<lambda>e.
               if isPrismaUniqueError e \<or> js_includes (error_String e) ''Unique constraint''
               then (json_response 409 (error_body ''Ese email ya existe''), d)
               else (json_response 500 (error_detail_body ''Error creando usuario'' e), d))
             in case bcrypt_hash L password 10 of
                  Inl e \<Rightarrow> catch e
                | Inr passwordHash \<Rightarrow>
                    (case user_create d now email (JStr passwordHash) name None None of
                       Inl e \<Rightarrow> catch e
                     | Inr (u, d') \<Rightarrow> (json_response 201 (user_select u), d')))"

text \<open>\<^verbatim>\<open>router.post("/auth/register", ...)\<close>.\<close>

definition post_auth_register ::
  "libs \<Rightarrow> process_env \<Rightarrow> int \<Rightarrow> db \<Rightarrow> request \<Rightarrow> response \<times> db" where
  "post_auth_register L pe now d req =
     (let email = body req ''email''; password = body req ''password''; name = body req ''name''
      in if falsy email \<or> falsy password \<or> falsy name
         then (json_response 400 (error_body ''email, password y name son obligatorios''), d)
         else
           (case user_findUnique_email d email of
              Inl e \<Rightarrow> (json_response 500 (error_detail_body ''Error en register'' e), d)
            | Inr (Some existing) \<Rightarrow> (json_response 409 (error_body ''Ese email ya existe''), d)
            | Inr None \<Rightarrow>
                (case bcrypt_hash L password 10 of
                   Inl e \<Rightarrow> (json_response 500 (error_detail_body ''Error en register'' e), d)
                 | Inr passwordHash \<Rightarrow>
                     (case user_create d now email (JStr passwordHash) name None None of
                        Inl e \<Rightarrow> (json_response 500 (error_detail_body ''Error en register'' e), d)
                      | Inr (u, d') \<Rightarrow>
                          (case jwt_sign L \<lparr>p_sub = u_id u, p_role = u_role u\<rparr>
                                  (JWT_SECRET pe) (expiresIn pe) of
                             Inl e \<Rightarrow>
                               (json_response 500 (error_detail_body ''Error en register'' e), d')
                           | Inr token \<Rightarrow>
                               (json_response 201
                                  (JObj [(''user'', user_select u), (''token'', JStr token)]),
                                d'))))))"

text \<open>\<^verbatim>\<open>router.post("/auth/login", ...)\<close>.\<close>

definition post_auth_login :: "libs \<Rightarrow> process_env \<Rightarrow> db \<Rightarrow> request \<Rightarrow> response \<times> db" where
  "post_auth_login L pe d req =
     (let email = body req ''email''; password = body req ''password''
      in if falsy email \<or> falsy password
         then (json_response 400 (error_body ''email y password son obligatorios''), d)
         else
           (case user_findUnique_email d email of
              Inl e \<Rightarrow> (json_response 500 (error_detail_body ''Error en login'' e), d)
            | Inr None \<Rightarrow> (json_response 401 (error_body msg_credenciales), d)
            | Inr (Some u) \<Rightarrow>
                (case bcrypt_compare L password (u_password u) of
                   Inl e \<Rightarrow> (json_response 500 (error_detail_body ''Error en login'' e), d)
                 | Inr ok \<Rightarrow>
                     if \<not> ok then (json_response 401 (error_body msg_credenciales), d)
                     else
                       (case jwt_sign L \<lparr>p_sub = u_id u, p_role = u_role u\<rparr>
                               (JWT_SECRET pe) (expiresIn pe) of
                          Inl e \<Rightarrow> (json_response 500 (error_detail_body ''Error en login'' e), d)
                        | Inr token \<Rightarrow>
                            (json_response 200
                               (JObj [(''user'', user_select u), (''token'', JStr token)]),
                             d)))))"

text \<open>\<^verbatim>\<open>router.get("/me", auth, ...)\<close>: the user of the token, or \<^verbatim>\<open>null\<close>.\<close>

definition get_me :: "req_user \<Rightarrow> db \<Rightarrow> request \<Rightarrow> outcome" where
  "get_me usr d req =
     (case user_findUnique_id d (ru_id usr) of
        Inl e \<Rightarrow> Inr (json_response 500 (error_detail_body ''Error en /me'' e), d)
      | Inr None \<Rightarrow> Inr (json_response 200 JNull, d)
      | Inr (Some u) \<Rightarrow> Inr (json_response 200 (user_select u), d))"

text \<open>\<^verbatim>\<open>router.get("/tasks", auth, ...)\<close>.\<close>

definition get_tasks :: "req_user \<Rightarrow> db \<Rightarrow> request \<Rightarrow> outcome" where
  "get_tasks usr d req =
     (case task_findMany d (ru_id usr) of
        Inl e \<Rightarrow> Inr (json_response 500 (error_detail_body ''Error listando tareas'' e), d)
      | Inr ts \<Rightarrow> Inr (json_response 200 (JArr (map task_row ts)), d))"

text \<open>\<^verbatim>\<open>router.post("/tasks", auth, ...)\<close>. The conversion \<^verbatim>\<open>String(title)\<close> is inside the
  \<^verbatim>\<open>try\<close>.\<close>

definition post_tasks :: "int \<Rightarrow> req_user \<Rightarrow> db \<Rightarrow> request \<Rightarrow> outcome" where
  "post_tasks now usr d req =
     (let title = body req ''title''
      in if falsy title then Inr (json_response 400 (error_body ''title es obligatorio''), d)
         else
           (case js_String title of
              Inl e \<Rightarrow> Inr (json_response 500 (error_detail_body ''Error creando tarea'' e), d)
            | Inr s \<Rightarrow>
                (case task_create d now (JStr (js_trim s)) (ru_id usr) of
                   Inl e \<Rightarrow>
                     Inr (json_response 500 (error_detail_body ''Error creando tarea'' e), d)
                 | Inr (t, d') \<Rightarrow> Inr (json_response 201 (task_row t), d'))))"

text \<open>The \<^verbatim>\<open>data\<close> object the update handler builds from the two optional fields, or
  the error that \<^verbatim>\<open>String(title)\<close> throws.\<close>

definition patch_data :: "request \<Rightarrow> js_error + update_data" where
  "patch_data req =
     (let title = body req ''title''; completed = body req ''completed''
      in case (if title \<noteq> JUndefined
               then (case js_String title of
                       Inl e \<Rightarrow> Inl e
                     | Inr s \<Rightarrow> Inr [(''title'', JStr (js_trim s))])
               else Inr []) of
           Inl e \<Rightarrow> Inl e
         | Inr ts \<Rightarrow>
             Inr (ts @ (if completed \<noteq> JUndefined
                        then [(''completed'', JBool (truthy completed))] else [])))"

text \<open>\<^verbatim>\<open>router.patch("/tasks/:id", auth, ...)\<close>. The \<^verbatim>\<open>data\<close> object is built before the
  \<^verbatim>\<open>try\<close>, so an error of \<^verbatim>\<open>String(title)\<close> escapes from the handler.\<close>

definition patch_tasks_id :: "int \<Rightarrow> req_user \<Rightarrow> db \<Rightarrow> request \<Rightarrow> outcome" where
  "patch_tasks_id now usr d req =
     (let id = params_id req
      in if id = NaN then Inr (json_response 400 (error_body msg_id_invalido), d)
         else
           (case patch_data req of
              Inl e \<Rightarrow> Inl e
            | Inr data \<Rightarrow>
                if length data = 0
                then Inr (json_response 400 (error_body ''Nada que actualizar''), d)
                else
                  (case task_findFirst d id (ru_id usr) of
                     Inl e \<Rightarrow>
                       Inr (json_response 500
                              (error_detail_body ''Error actualizando tarea'' e), d)
                   | Inr None \<Rightarrow> Inr (json_response 404 (error_body ''Tarea no encontrada''), d)
                   | Inr (Some existing) \<Rightarrow>
                       (case task_update d now id data of
                          Inl e \<Rightarrow>
                            Inr (json_response 500
                                   (error_detail_body ''Error actualizando tarea'' e), d)
                        | Inr (updated, d') \<Rightarrow>
                            Inr (json_response 200 (task_row updated), d')))))"

text \<open>\<^verbatim>\<open>router.delete("/tasks/:id", auth, ...)\<close>.\<close>

definition delete_tasks_id :: "req_user \<Rightarrow> db \<Rightarrow> request \<Rightarrow> outcome" where
  "delete_tasks_id usr d req =
     (let id = params_id req
      in if id = NaN then Inr (json_response 400 (error_body msg_id_invalido), d)
         else
           (case task_findFirst d id (ru_id usr) of
              Inl e \<Rightarrow> Inr (json_response 500 (error_detail_body ''Error borrando tarea'' e), d)
            | Inr None \<Rightarrow> Inr (json_response 404 (error_body ''Tarea no encontrada''), d)
            | Inr (Some existing) \<Rightarrow>
                (case task_delete d id of
                   Inl e \<Rightarrow>
                     Inr (json_response 500 (error_detail_body ''Error borrando tarea'' e), d)
                 | Inr d' \<Rightarrow> Inr (\<lparr>res_status = 204, res_body = None\<rparr>, d'))))"

section \<open>Start-up\<close>

text \<open>The state of the process that start-up changes: the port the server listens
  on (none before \<^verbatim>\<open>app.listen\<close>), whether the store is connected, the exit code once
  the process has exited, and the lines written to the console (without the emoji
  that prefix them in the source).\<close>

record process =
  listening :: "int option"
  connected :: bool
  exit_code :: "int option"
  console :: "string list"

definition initial_process :: process where
  "initial_process = \<lparr>listening = None, connected = False, exit_code = None, console = []\<rparr>"

text \<open>The \<^verbatim>\<open>RangeError\<close> that \<^verbatim>\<open>app.listen\<close> throws for a port that is not an integer from
  0 to 65535.\<close>

definition bad_port_error :: js_error where
  "bad_port_error =
     JsError (Some ''ERR_SOCKET_BAD_PORT'') ''RangeError'' ''options.port should be >= 0 and < 65536''"

text \<open>\<^verbatim>\<open>async function start()\<close>: the error of the rejected promise, if it throws, and
  the process as it is when \<^verbatim>\<open>start\<close> ends. \<open>connect\<close> is the outcome of
  \<^verbatim>\<open>prisma.$connect()\<close>.\<close>

definition start ::
  "process_env \<Rightarrow> js_error + unit \<Rightarrow> process \<Rightarrow> js_error option \<times> process" where
  "start pe connect p =
     (if JWT_SECRET pe = [] then (Some (JsError None ''Error'' ''Falta JWT_SECRET en el .env''), p)
      else
        (case connect of
           Inl e \<Rightarrow> (Some e, p)
         | Inr u \<Rightarrow>
             let p1 = p\<lparr>connected := True, console := console p @ [''Prisma conectado a la DB'']\<rparr>
             in (case PORT pe of
                   Num n \<Rightarrow>
                     if 0 \<le> n \<and> n \<le> 65535
                     then (None,
                           p1\<lparr>listening := Some n,
                              console := console p1 @
                                [''API corriendo en http://localhost:'' @ show_int n]\<rparr>)
                     else (Some bad_port_error, p1)
                 | _ \<Rightarrow> (Some bad_port_error, p1))))"

text \<open>The statement that ends the file:
  \<^verbatim>\<open>start().catch((err) => { console.error(...); process.exit(1); })\<close>.\<close>

definition app_main :: "process_env \<Rightarrow> js_error + unit \<Rightarrow> process \<Rightarrow> process" where
  "app_main pe connect p =
     (case start pe connect p of
        (Some err, p') \<Rightarrow>
          p'\<lparr>console := console p' @ [''Error al iniciar: '' @ error_String err],
             exit_code := Some 1\<rparr>
      | (None, p') \<Rightarrow> p')"

section \<open>The seed script\<close>

text \<open>\<^verbatim>\<open>async function main()\<close> of \<^verbatim>\<open>prisma/seed.js\<close>: the error it ends with, if any, and
  the store after it.\<close>

definition seed_main :: "int \<Rightarrow> db \<Rightarrow> js_error option \<times> db" where
  "seed_main now d =
     (case company_create d ''TasksCompleted'' of
        (company, d1) \<Rightarrow>
          (case user_create d1 now (JStr ''admin@taskscompleted.com'') (JStr ''admin123'')
                  (JStr ''Admin'') (Some ''ADMIN'') (Some (c_id company)) of
             Inl e \<Rightarrow> (Some e, d1)
           | Inr (u, d2) \<Rightarrow> (None, d2)))"

section \<open>Example data\<close>

text \<open>A parsed JSON object as a request body: reading a property it does not have
  gives \<^verbatim>\<open>undefined\<close>.\<close>

definition body_of :: "(string \<times> jsval) list \<Rightarrow> string \<Rightarrow> jsval" where
  "body_of kvs k = (case map_of kvs k of None \<Rightarrow> JUndefined | Some v \<Rightarrow> v)"

text \<open>Stand-ins for the two libraries, for running the model: the hash of a string
  is the string reversed behind a prefix, and only two tokens verify. As
  \<^verbatim>\<open>bcrypt.hash\<close> and \<^verbatim>\<open>bcrypt.compare\<close> do, they throw when the data is not a string.\<close>

definition example_libs :: libs where
  "example_libs =
     \<lparr>bcrypt_hash = (\<lambda>v rounds. case v of
                        JStr s \<Rightarrow> Inr (''hash:'' @ rev s)
                      | _ \<Rightarrow> Inl (JsError None ''Error'' ''data must be a string'')),
      bcrypt_compare = (\<lambda>v h. case v of
                          JStr s \<Rightarrow> Inr (h = ''hash:'' @ rev s)
                        | _ \<Rightarrow> Inl (JsError None ''Error'' ''data must be a string'')),
      jwt_sign = (\<lambda>payload secret e.
                    if secret = [] then Inl (JsError None ''Error'' ''secret must have a value'')
                    else Inr (''t'' @ show_int (p_sub payload))),
      jwt_verify = (\<lambda>tok secret.
                      if tok = ''t1'' then Inr \<lparr>p_sub = 1, p_role = ''USER''\<rparr>
                      else if tok = ''t2'' then Inr \<lparr>p_sub = 2, p_role = ''USER''\<rparr>
                      else Inl (JsError None ''JsonWebTokenError'' ''invalid token''))\<rparr>"

definition example_env :: process_env where
  "example_env =
     \<lparr>env_PORT = NaN, env_NODE_ENV = None, env_JWT_SECRET = Some ''s3cret'',
      env_JWT_EXPIRES_IN = None\<rparr>"

definition ana :: user where
  "ana = \<lparr>u_id = 1, u_email = ''ana@example.com'', u_password = ''hash:1ssap'',
          u_name = ''Ana'', u_role = ''USER'', u_createdAt = 10, u_companyId = None\<rparr>"

definition bob :: user where
  "bob = \<lparr>u_id = 2, u_email = ''bob@example.com'', u_password = ''hash:2ssap'',
          u_name = ''Bob'', u_role = ''USER'', u_createdAt = 20, u_companyId = None\<rparr>"

definition milk :: task where
  "milk = \<lparr>t_id = 1, t_title = ''buy milk'', t_completed = False, t_userId = 1,
           t_createdAt = 30, t_updatedAt = 30\<rparr>"

text \<open>The example stores have the 32-bit signed integers as their id type.\<close>

definition example_db :: db where
  "example_db =
     \<lparr>users = [ana, bob], tasks = [milk], companies = [],
      next_user_id = 3, next_task_id = 2, next_company_id = 1,
      id_min = - 2147483648, id_max = 2147483647\<rparr>"

definition empty_db :: db where
  "empty_db =
     \<lparr>users = [], tasks = [], companies = [],
      next_user_id = 1, next_task_id = 1, next_company_id = 1,
      id_min = - 2147483648, id_max = 2147483647\<rparr>"

text \<open>A request of Ana's (token \<^verbatim>\<open>t1\<close>) or Bob's (token \<^verbatim>\<open>t2\<close>) on the task of the route
  parameter, with the given body.\<close>

definition request_of :: "string \<Rightarrow> js_number \<Rightarrow> (string \<times> jsval) list \<Rightarrow> request" where
  "request_of tok i kvs =
     \<lparr>authorization = Some (''Bearer '' @ tok), params_id = i, body = body_of kvs\<rparr>"

section \<open>Helper facts\<close>

lemma guarded_auth: "auth L pe req = Inr usr \<Longrightarrow> guarded L pe h d req = h usr d req"
  by (simp add: guarded_def)

lemma auth_rejects:
  assumes "auth L pe req = Inl r"
  shows "r = json_response 401 (error_body ''Token requerido (Bearer)'')
       \<or> r = json_response 401 (error_body msg_token_invalido)"
  using assms
  by (auto simp: auth_def Let_def split: option.splits if_splits sum.splits)

lemma auth_reads_header_only:
  "authorization req' = authorization req \<Longrightarrow> auth L pe req' = auth L pe req"
  by (simp add: auth_def)

lemma id_arg_Inr: "id_arg d n = Inr i \<longleftrightarrow> n = Num i \<and> id_fits d i"
  by (auto simp: id_arg_def split: js_number.splits)

lemma id_arg_Num: "id_fits d i \<Longrightarrow> id_arg d (Num i) = Inr i"
  by (simp add: id_arg_def)

lemma id_arg_Inl: "id_arg d n = Inl e \<Longrightarrow> e = validation_error"
  by (auto simp: id_arg_def split: js_number.splits if_splits)

lemma task_findFirst_fits:
  assumes "id_fits d i" and "id_fits d uid"
  shows "task_findFirst d (Num i) uid
           = Inr (find (\<lambda>t. t_id t = i \<and> t_userId t = uid) (tasks d))"
  using assms by (simp add: task_findFirst_def id_arg_Num)

lemma task_findFirst_Inr:
  assumes "task_findFirst d n uid = Inr r"
  shows "\<exists>i. n = Num i \<and> id_fits d i \<and> id_fits d uid
             \<and> r = find (\<lambda>t. t_id t = i \<and> t_userId t = uid) (tasks d)"
proof -
  from assms obtain i u where "id_arg d n = Inr i" "id_arg d (Num uid) = Inr u"
      "r = find (\<lambda>t. t_id t = i \<and> t_userId t = u) (tasks d)"
    by (auto simp: task_findFirst_def split: sum.splits)
  then show ?thesis by (auto simp: id_arg_Inr)
qed

lemma task_findFirst_Inl: "task_findFirst d n uid = Inl e \<Longrightarrow> e = validation_error"
  by (auto simp: task_findFirst_def split: sum.splits dest: id_arg_Inl)

lemma task_findFirst_Some_find:
  assumes "task_findFirst d n uid = Inr (Some t)"
  shows "n = Num (t_id t) \<and> id_fits d (t_id t) \<and> t_userId t = uid \<and> t \<in> set (tasks d)
       \<and> (\<exists>t'. find (\<lambda>x. t_id x = t_id t) (tasks d) = Some t')"
proof -
  from task_findFirst_Inr[OF assms] obtain i where i: "n = Num i" "id_fits d i"
      and f: "find (\<lambda>t. t_id t = i \<and> t_userId t = uid) (tasks d) = Some t"
    by auto
  from f have m: "t \<in> set (tasks d)" "t_id t = i" "t_userId t = uid"
    by (auto simp: find_Some_iff)
  then have "find (\<lambda>x. t_id x = t_id t) (tasks d) \<noteq> None"
    by (auto simp: find_None_iff)
  with i m show ?thesis by auto
qed

lemma patch_data_no_title:
  assumes "body req ''title'' = JUndefined"
  shows "patch_data req =
           Inr (if body req ''completed'' \<noteq> JUndefined
                then [(''completed'', JBool (truthy (body req ''completed'')))] else [])"
  using assms by (simp add: patch_data_def)

lemma patch_data_title:
  assumes "body req ''title'' \<noteq> JUndefined" and "js_String (body req ''title'') = Inr s"
  shows "patch_data req =
           Inr ((''title'', JStr (js_trim s)) #
                (if body req ''completed'' \<noteq> JUndefined
                 then [(''completed'', JBool (truthy (body req ''completed'')))] else []))"
  using assms by (simp add: patch_data_def)

lemma patch_data_throws:
  assumes "body req ''title'' \<noteq> JUndefined" and "js_String (body req ''title'') = Inl e"
  shows "patch_data req = Inl e"
  using assms by (simp add: patch_data_def)

lemma patch_data_cases:
  "(body req ''title'' = JUndefined
      \<and> patch_data req =
           Inr (if body req ''completed'' \<noteq> JUndefined
                then [(''completed'', JBool (truthy (body req ''completed'')))] else []))
   \<or> (\<exists>s. body req ''title'' \<noteq> JUndefined \<and> js_String (body req ''title'') = Inr s
      \<and> patch_data req =
           Inr ((''title'', JStr (js_trim s)) #
                (if body req ''completed'' \<noteq> JUndefined
                 then [(''completed'', JBool (truthy (body req ''completed'')))] else [])))
   \<or> (\<exists>e. body req ''title'' \<noteq> JUndefined \<and> js_String (body req ''title'') = Inl e
      \<and> patch_data req = Inl e)"
proof (cases "body req ''title'' = JUndefined")
  case True
  then show ?thesis using patch_data_no_title by blast
next
  case False
  then show ?thesis
    by (cases "js_String (body req ''title'')") (auto simp: patch_data_title patch_data_throws)
qed

lemma patch_data_ok: "patch_data req = Inr data \<Longrightarrow> data_ok data"
  using patch_data_cases[of req] by (auto simp: data_ok_def)

lemma patch_data_Nil_iff:
  "patch_data req = Inr [] \<longleftrightarrow>
     body req ''title'' = JUndefined \<and> body req ''completed'' = JUndefined"
  using patch_data_cases[of req] by (auto split: if_splits)

lemma map_of_patch_data_completed:
  assumes "patch_data req = Inr data"
  shows "map_of data ''completed'' =
     (if body req ''completed'' = JUndefined then None
      else Some (JBool (truthy (body req ''completed''))))"
  using patch_data_cases[of req] assms by auto

lemma map_of_patch_data_title:
  assumes "patch_data req = Inr data"
  shows "map_of data ''title'' =
     (if body req ''title'' = JUndefined then None
      else (case js_String (body req ''title'') of
              Inl e \<Rightarrow> None | Inr s \<Rightarrow> Some (JStr (js_trim s))))"
  using patch_data_cases[of req] assms by auto

lemma patch_tasks_id_NaN:
  "params_id req = NaN \<Longrightarrow>
     patch_tasks_id now usr d req = Inr (json_response 400 (error_body msg_id_invalido), d)"
  by (simp add: patch_tasks_id_def)

lemma patch_tasks_id_empty:
  assumes "params_id req \<noteq> NaN" and "patch_data req = Inr []"
  shows "patch_tasks_id now usr d req
           = Inr (json_response 400 (error_body ''Nada que actualizar''), d)"
  using assms by (simp add: patch_tasks_id_def)

lemma patch_tasks_id_throws:
  assumes "params_id req \<noteq> NaN" and "patch_data req = Inl e"
  shows "patch_tasks_id now usr d req = Inl e"
  using assms by (simp add: patch_tasks_id_def)

lemma patch_tasks_id_lookup_throws:
  assumes "params_id req \<noteq> NaN" and "patch_data req = Inr data" and "data \<noteq> []"
    and "task_findFirst d (params_id req) (ru_id usr) = Inl e"
  shows "patch_tasks_id now usr d req
           = Inr (json_response 500 (error_detail_body ''Error actualizando tarea'' e), d)"
  using assms by (simp add: patch_tasks_id_def)

lemma patch_tasks_id_missing:
  assumes "params_id req \<noteq> NaN" and "patch_data req = Inr data" and "data \<noteq> []"
    and "task_findFirst d (params_id req) (ru_id usr) = Inr None"
  shows "patch_tasks_id now usr d req
           = Inr (json_response 404 (error_body ''Tarea no encontrada''), d)"
  using assms by (simp add: patch_tasks_id_def)

lemma patch_tasks_id_found:
  assumes "patch_data req = Inr data" and "data \<noteq> []"
    and "task_findFirst d (params_id req) (ru_id usr) = Inr (Some t)"
  shows "\<exists>t'. find (\<lambda>x. t_id x = t_id t) (tasks d) = Some t' \<and>
     patch_tasks_id now usr d req =
       Inr (json_response 200 (task_row (apply_data data now t')),
            d\<lparr>tasks := map (\<lambda>x. if t_id x = t_id t then apply_data data now x else x)
                            (tasks d)\<rparr>)"
proof -
  from task_findFirst_Some_find[OF assms(3)] obtain t'
    where n: "params_id req = Num (t_id t)" and f: "id_fits d (t_id t)"
      and t': "find (\<lambda>x. t_id x = t_id t) (tasks d) = Some t'"
    by blast
  have u: "task_update d now (Num (t_id t)) data =
       Inr (apply_data data now t',
            d\<lparr>tasks := map (\<lambda>x. if t_id x = t_id t then apply_data data now x else x)
                            (tasks d)\<rparr>)"
    using t' f patch_data_ok[OF assms(1)] by (simp add: task_update_def id_arg_Num)
  have "patch_tasks_id now usr d req =
       Inr (json_response 200 (task_row (apply_data data now t')),
            d\<lparr>tasks := map (\<lambda>x. if t_id x = t_id t then apply_data data now x else x)
                            (tasks d)\<rparr>)"
    using assms n u by (simp add: patch_tasks_id_def)
  with t' show ?thesis by blast
qed

lemma delete_tasks_id_NaN:
  "params_id req = NaN \<Longrightarrow>
     delete_tasks_id usr d req = Inr (json_response 400 (error_body msg_id_invalido), d)"
  by (simp add: delete_tasks_id_def)

lemma delete_tasks_id_lookup_throws:
  assumes "params_id req \<noteq> NaN" and "task_findFirst d (params_id req) (ru_id usr) = Inl e"
  shows "delete_tasks_id usr d req
           = Inr (json_response 500 (error_detail_body ''Error borrando tarea'' e), d)"
  using assms by (simp add: delete_tasks_id_def)

lemma delete_tasks_id_missing:
  assumes "params_id req \<noteq> NaN" and "task_findFirst d (params_id req) (ru_id usr) = Inr None"
  shows "delete_tasks_id usr d req
           = Inr (json_response 404 (error_body ''Tarea no encontrada''), d)"
  using assms by (simp add: delete_tasks_id_def)

lemma delete_tasks_id_found:
  assumes "task_findFirst d (params_id req) (ru_id usr) = Inr (Some t)"
  shows "delete_tasks_id usr d req =
       Inr (\<lparr>res_status = 204, res_body = None\<rparr>,
            d\<lparr>tasks := filter (\<lambda>x. t_id x \<noteq> t_id t) (tasks d)\<rparr>)"
proof -
  from task_findFirst_Some_find[OF assms] obtain t'
    where n: "params_id req = Num (t_id t)" and f: "id_fits d (t_id t)"
      and t': "find (\<lambda>x. t_id x = t_id t) (tasks d) = Some t'"
    by blast
  have "task_delete d (Num (t_id t)) = Inr (d\<lparr>tasks := filter (\<lambda>x. t_id x \<noteq> t_id t) (tasks d)\<rparr>)"
    using t' f by (simp add: task_delete_def id_arg_Num)
  then show ?thesis using assms n by (simp add: delete_tasks_id_def)
qed

lemma patch_tasks_id_statuses:
  assumes "patch_tasks_id now usr d req = Inr (r, d')"
  shows "res_status r \<in> {200, 400, 404, 500}"
  using assms
  by (auto simp: patch_tasks_id_def Let_def json_response_def
      split: if_splits sum.splits option.splits prod.splits)

lemma delete_tasks_id_statuses:
  assumes "delete_tasks_id usr d req = Inr (r, d')"
  shows "res_status r \<in> {204, 400, 404, 500}"
  using assms
  by (auto simp: delete_tasks_id_def Let_def json_response_def
      split: if_splits sum.splits option.splits prod.splits)

lemma task_findMany_set:
  "task_findMany d uid = Inr ts \<Longrightarrow> set ts = {t \<in> set (tasks d). t_userId t = uid}"
  by (auto simp: task_findMany_def id_arg_Inr split: sum.splits)

lemma auth_example_t1:
  "auth example_libs example_env (request_of ''t1'' i kvs) = Inr \<lparr>ru_id = 1, ru_role = ''USER''\<rparr>"
  by (simp add: auth_def example_libs_def example_env_def request_of_def or_default_def JWT_SECRET_def)

lemma auth_example_t2:
  "auth example_libs example_env (request_of ''t2'' i kvs) = Inr \<lparr>ru_id = 2, ru_role = ''USER''\<rparr>"
  by (simp add: auth_def example_libs_def example_env_def request_of_def or_default_def JWT_SECRET_def)

lemma example_db_fits: "id_fits example_db 1" "id_fits example_db 2"
  by (simp_all add: id_fits_def example_db_def)

lemma find_email_not_string:
  assumes "\<forall>s. e \<noteq> JStr s"
  shows "user_findUnique_email d e = Inl validation_error"
  using assms by (cases e) (simp_all add: user_findUnique_email_def)

section \<open>The claims\<close>

text \<open>
  C1, as amended. Take an authenticated \<^verbatim>\<open>PATCH\<close> or \<^verbatim>\<open>DELETE\<close> of \<^verbatim>\<open>/tasks/:id\<close>.
  \<^item> An id that is not a number is answered 400, and so is a \<^verbatim>\<open>PATCH\<close> with a
    numeric id that supplies neither \<^verbatim>\<open>title\<close> nor \<^verbatim>\<open>completed\<close>: both before the
    lookup, with the store as it was. In a \<^verbatim>\<open>PATCH\<close> with a numeric id whose title
    cannot be converted to a string the error escapes from the handler before the
    lookup, and the handler sends no response.
  \<^item> Otherwise the answer follows the store's lookup of the pair (id, owner = the
    caller's subject id): 200 for \<^verbatim>\<open>PATCH\<close> and 204 for \<^verbatim>\<open>DELETE\<close>, the rows of that id
    updated or removed, when it returns a row; 404 with the store as it was when it
    returns none; 500 with the store as it was when the lookup throws. For an id
    and a caller of the store's id type the lookup returns the first row with that
    id and owner, if there is one.
  \<^item> No response is 403.
  \<^item> Tasks are read through \<^verbatim>\<open>GET /tasks\<close> only, which lists the rows whose owner is
    the caller and no others, or answers 500 when the store's query throws.
\<close>

theorem owner_lookup_decides_access:
  assumes "auth L pe req = Inr usr"
  shows "(params_id req = NaN \<longrightarrow>
            guarded L pe (patch_tasks_id now) d req
              = Inr (json_response 400 (error_body msg_id_invalido), d)
          \<and> guarded L pe delete_tasks_id d req
              = Inr (json_response 400 (error_body msg_id_invalido), d))
       \<and> (params_id req \<noteq> NaN \<and> body req ''title'' = JUndefined
            \<and> body req ''completed'' = JUndefined \<longrightarrow>
            guarded L pe (patch_tasks_id now) d req
              = Inr (json_response 400 (error_body ''Nada que actualizar''), d))
       \<and> (\<forall>e. params_id req \<noteq> NaN \<and> patch_data req = Inl e \<longrightarrow>
            guarded L pe (patch_tasks_id now) d req = Inl e)
       \<and> (\<forall>data. params_id req \<noteq> NaN \<and> patch_data req = Inr data \<and> data \<noteq> [] \<longrightarrow>
            (case task_findFirst d (params_id req) (ru_id usr) of
               Inl e \<Rightarrow> guarded L pe (patch_tasks_id now) d req
                         = Inr (json_response 500
                                  (error_detail_body ''Error actualizando tarea'' e), d)
             | Inr None \<Rightarrow> guarded L pe (patch_tasks_id now) d req
                         = Inr (json_response 404 (error_body ''Tarea no encontrada''), d)
             | Inr (Some t) \<Rightarrow>
                 (\<exists>updated. guarded L pe (patch_tasks_id now) d req
                    = Inr (json_response 200 (task_row updated),
                           d\<lparr>tasks := map (\<lambda>x. if t_id x = t_id t
                                                then apply_data data now x else x) (tasks d)\<rparr>))))
       \<and> (params_id req \<noteq> NaN \<longrightarrow>
            (case task_findFirst d (params_id req) (ru_id usr) of
               Inl e \<Rightarrow> guarded L pe delete_tasks_id d req
                         = Inr (json_response 500
                                  (error_detail_body ''Error borrando tarea'' e), d)
             | Inr None \<Rightarrow> guarded L pe delete_tasks_id d req
                         = Inr (json_response 404 (error_body ''Tarea no encontrada''), d)
             | Inr (Some t) \<Rightarrow> guarded L pe delete_tasks_id d req
                         = Inr (\<lparr>res_status = 204, res_body = None\<rparr>,
                                d\<lparr>tasks := filter (\<lambda>x. t_id x \<noteq> t_id t) (tasks d)\<rparr>)))
       \<and> (\<forall>i. id_fits d i \<and> id_fits d (ru_id usr) \<longrightarrow>
            task_findFirst d (Num i) (ru_id usr)
              = Inr (find (\<lambda>t. t_id t = i \<and> t_userId t = ru_id usr) (tasks d)))
       \<and> (\<forall>r d'. guarded L pe (patch_tasks_id now) d req = Inr (r, d') \<longrightarrow> res_status r \<noteq> 403)
       \<and> (\<forall>r d'. guarded L pe delete_tasks_id d req = Inr (r, d') \<longrightarrow> res_status r \<noteq> 403)
       \<and> (case task_findMany d (ru_id usr) of
             Inl e \<Rightarrow> guarded L pe get_tasks d req
                       = Inr (json_response 500 (error_detail_body ''Error listando tareas'' e), d)
           | Inr ts \<Rightarrow> guarded L pe get_tasks d req
                       = Inr (json_response 200 (JArr (map task_row ts)), d)
                     \<and> set ts = {t \<in> set (tasks d). t_userId t = ru_id usr})"
proof -
  note g = guarded_auth[OF assms]
  have nan: "params_id req = NaN \<longrightarrow>
            guarded L pe (patch_tasks_id now) d req
              = Inr (json_response 400 (error_body msg_id_invalido), d)
          \<and> guarded L pe delete_tasks_id d req
              = Inr (json_response 400 (error_body msg_id_invalido), d)"
    by (simp add: g patch_tasks_id_NaN delete_tasks_id_NaN)
  have empty: "params_id req \<noteq> NaN \<and> body req ''title'' = JUndefined
            \<and> body req ''completed'' = JUndefined \<longrightarrow>
            guarded L pe (patch_tasks_id now) d req
              = Inr (json_response 400 (error_body ''Nada que actualizar''), d)"
    using patch_data_Nil_iff[of req] by (simp add: g patch_tasks_id_empty)
  have throws: "\<forall>e. params_id req \<noteq> NaN \<and> patch_data req = Inl e \<longrightarrow>
            guarded L pe (patch_tasks_id now) d req = Inl e"
    by (simp add: g patch_tasks_id_throws)
  have patch: "\<forall>data. params_id req \<noteq> NaN \<and> patch_data req = Inr data \<and> data \<noteq> [] \<longrightarrow>
            (case task_findFirst d (params_id req) (ru_id usr) of
               Inl e \<Rightarrow> guarded L pe (patch_tasks_id now) d req
                         = Inr (json_response 500
                                  (error_detail_body ''Error actualizando tarea'' e), d)
             | Inr None \<Rightarrow> guarded L pe (patch_tasks_id now) d req
                         = Inr (json_response 404 (error_body ''Tarea no encontrada''), d)
             | Inr (Some t) \<Rightarrow>
                 (\<exists>updated. guarded L pe (patch_tasks_id now) d req
                    = Inr (json_response 200 (task_row updated),
                           d\<lparr>tasks := map (\<lambda>x. if t_id x = t_id t
                                                then apply_data data now x else x) (tasks d)\<rparr>)))"
  proof (intro allI impI)
    fix data
    assume h: "params_id req \<noteq> NaN \<and> patch_data req = Inr data \<and> data \<noteq> []"
    show "case task_findFirst d (params_id req) (ru_id usr) of
               Inl e \<Rightarrow> guarded L pe (patch_tasks_id now) d req
                         = Inr (json_response 500
                                  (error_detail_body ''Error actualizando tarea'' e), d)
             | Inr None \<Rightarrow> guarded L pe (patch_tasks_id now) d req
                         = Inr (json_response 404 (error_body ''Tarea no encontrada''), d)
             | Inr (Some t) \<Rightarrow>
                 (\<exists>updated. guarded L pe (patch_tasks_id now) d req
                    = Inr (json_response 200 (task_row updated),
                           d\<lparr>tasks := map (\<lambda>x. if t_id x = t_id t
                                                then apply_data data now x else x) (tasks d)\<rparr>))"
    proof (cases "task_findFirst d (params_id req) (ru_id usr)")
      case (Inl e)
      then show ?thesis using h by (simp add: g patch_tasks_id_lookup_throws)
    next
      case (Inr found)
      show ?thesis
      proof (cases found)
        case None
        then show ?thesis using h Inr by (simp add: g patch_tasks_id_missing)
      next
        case (Some t)
        from h Inr Some have f: "task_findFirst d (params_id req) (ru_id usr) = Inr (Some t)"
          and pd: "patch_data req = Inr data" and ne: "data \<noteq> []"
          by simp_all
        from patch_tasks_id_found[OF pd ne f, of now]
        show ?thesis using Inr Some by (auto simp: g)
      qed
    qed
  qed
  have del: "params_id req \<noteq> NaN \<longrightarrow>
            (case task_findFirst d (params_id req) (ru_id usr) of
               Inl e \<Rightarrow> guarded L pe delete_tasks_id d req
                         = Inr (json_response 500
                                  (error_detail_body ''Error borrando tarea'' e), d)
             | Inr None \<Rightarrow> guarded L pe delete_tasks_id d req
                         = Inr (json_response 404 (error_body ''Tarea no encontrada''), d)
             | Inr (Some t) \<Rightarrow> guarded L pe delete_tasks_id d req
                         = Inr (\<lparr>res_status = 204, res_body = None\<rparr>,
                                d\<lparr>tasks := filter (\<lambda>x. t_id x \<noteq> t_id t) (tasks d)\<rparr>))"
  proof
    assume h: "params_id req \<noteq> NaN"
    show "case task_findFirst d (params_id req) (ru_id usr) of
               Inl e \<Rightarrow> guarded L pe delete_tasks_id d req
                         = Inr (json_response 500
                                  (error_detail_body ''Error borrando tarea'' e), d)
             | Inr None \<Rightarrow> guarded L pe delete_tasks_id d req
                         = Inr (json_response 404 (error_body ''Tarea no encontrada''), d)
             | Inr (Some t) \<Rightarrow> guarded L pe delete_tasks_id d req
                         = Inr (\<lparr>res_status = 204, res_body = None\<rparr>,
                                d\<lparr>tasks := filter (\<lambda>x. t_id x \<noteq> t_id t) (tasks d)\<rparr>)"
    proof (cases "task_findFirst d (params_id req) (ru_id usr)")
      case (Inl e)
      then show ?thesis using h by (simp add: g delete_tasks_id_lookup_throws)
    next
      case (Inr found)
      show ?thesis
      proof (cases found)
        case None
        then show ?thesis using h Inr by (simp add: g delete_tasks_id_missing)
      next
        case (Some t)
        with Inr have f: "task_findFirst d (params_id req) (ru_id usr) = Inr (Some t)" by simp
        show ?thesis using Inr Some by (simp add: g delete_tasks_id_found[OF f])
      qed
    qed
  qed
  have look: "\<forall>i. id_fits d i \<and> id_fits d (ru_id usr) \<longrightarrow>
            task_findFirst d (Num i) (ru_id usr)
              = Inr (find (\<lambda>t. t_id t = i \<and> t_userId t = ru_id usr) (tasks d))"
    by (simp add: task_findFirst_fits)
  have n1: "\<forall>r d'. guarded L pe (patch_tasks_id now) d req = Inr (r, d') \<longrightarrow> res_status r \<noteq> 403"
    using patch_tasks_id_statuses[of now usr d req] by (auto simp: g)
  have n2: "\<forall>r d'. guarded L pe delete_tasks_id d req = Inr (r, d') \<longrightarrow> res_status r \<noteq> 403"
    using delete_tasks_id_statuses[of usr d req] by (auto simp: g)
  have l: "case task_findMany d (ru_id usr) of
             Inl e \<Rightarrow> guarded L pe get_tasks d req
                       = Inr (json_response 500 (error_detail_body ''Error listando tareas'' e), d)
           | Inr ts \<Rightarrow> guarded L pe get_tasks d req
                       = Inr (json_response 200 (JArr (map task_row ts)), d)
                     \<and> set ts = {t \<in> set (tasks d). t_userId t = ru_id usr}"
    by (auto simp: g get_tasks_def dest: task_findMany_set split: sum.splits)
  from nan empty throws patch del look n1 n2 l show ?thesis by blast
qed

theorem owner_lookup_witness:
  "guarded example_libs example_env (patch_tasks_id 50) example_db
        (request_of ''t2'' (Num 1) [(''title'', JStr ''mine'')])
       = Inr (json_response 404 (error_body ''Tarea no encontrada''), example_db)
   \<and> guarded example_libs example_env delete_tasks_id example_db
        (request_of ''t2'' (Num 1) [(''title'', JStr ''mine'')])
       = Inr (json_response 404 (error_body ''Tarea no encontrada''), example_db)
   \<and> (\<exists>updated. guarded example_libs example_env (patch_tasks_id 50) example_db
        (request_of ''t1'' (Num 1) [(''title'', JStr ''mine'')])
       = Inr (json_response 200 (task_row updated),
              example_db\<lparr>tasks := [milk\<lparr>t_title := ''mine'', t_updatedAt := 50\<rparr>]\<rparr>))
   \<and> guarded example_libs example_env delete_tasks_id example_db
        (request_of ''t1'' (Num 1) [(''title'', JStr ''mine'')])
       = Inr (\<lparr>res_status = 204, res_body = None\<rparr>, example_db\<lparr>tasks := []\<rparr>)
   \<and> guarded example_libs example_env delete_tasks_id example_db
        (request_of ''t1'' (Fraction 1) [])
       = Inr (json_response 500 (error_detail_body ''Error borrando tarea'' validation_error),
              example_db)
   \<and> guarded example_libs example_env delete_tasks_id example_db
        (request_of ''t1'' NaN [])
       = Inr (json_response 400 (error_body msg_id_invalido), example_db)"
proof -
  let ?bob = "request_of ''t2'' (Num 1) [(''title'', JStr ''mine'')]"
  let ?ana = "request_of ''t1'' (Num 1) [(''title'', JStr ''mine'')]"
  let ?frac = "request_of ''t1'' (Fraction 1) []"
  let ?nan = "request_of ''t1'' NaN []"
  let ?data = "[(''title'', JStr ''mine'')]"
  have p: "params_id ?bob \<noteq> NaN" "params_id ?ana \<noteq> NaN" "params_id ?frac \<noteq> NaN"
      "params_id ?nan = NaN"
    by (simp_all add: request_of_def)
  have pd: "patch_data ?bob = Inr ?data" "patch_data ?ana = Inr ?data"
    by (simp_all add: patch_data_def request_of_def body_of_def js_trim_def is_space_def)
  have f: "task_findFirst example_db (params_id ?bob) (ru_id \<lparr>ru_id = 2, ru_role = ''USER''\<rparr>)
             = Inr None"
      "task_findFirst example_db (params_id ?ana) (ru_id \<lparr>ru_id = 1, ru_role = ''USER''\<rparr>)
             = Inr (Some milk)"
      "task_findFirst example_db (params_id ?frac) (ru_id \<lparr>ru_id = 1, ru_role = ''USER''\<rparr>)
             = Inl validation_error"
    by (simp_all add: task_findFirst_def id_arg_def id_fits_def request_of_def example_db_def
        milk_def)
  have e: "filter (\<lambda>x. t_id x \<noteq> t_id milk) (tasks example_db) = []"
      "map (\<lambda>x. if t_id x = t_id milk then apply_data ?data 50 x else x) (tasks example_db)
         = [milk\<lparr>t_title := ''mine'', t_updatedAt := 50\<rparr>]"
    by (simp_all add: example_db_def milk_def apply_data_def)
  from owner_lookup_decides_access[OF auth_example_t2[of "Num 1" ?data],
         where d = example_db and now = 50]
  have bob: "guarded example_libs example_env (patch_tasks_id 50) example_db ?bob
       = Inr (json_response 404 (error_body ''Tarea no encontrada''), example_db)"
      "guarded example_libs example_env delete_tasks_id example_db ?bob
       = Inr (json_response 404 (error_body ''Tarea no encontrada''), example_db)"
    using p(1) pd(1) f(1) by (simp_all split: sum.splits option.splits)
  from owner_lookup_decides_access[OF auth_example_t1[of "Num 1" ?data],
         where d = example_db and now = 50]
  have ana: "\<exists>updated. guarded example_libs example_env (patch_tasks_id 50) example_db ?ana
       = Inr (json_response 200 (task_row updated),
              example_db\<lparr>tasks := [milk\<lparr>t_title := ''mine'', t_updatedAt := 50\<rparr>]\<rparr>)"
      "guarded example_libs example_env delete_tasks_id example_db ?ana
       = Inr (\<lparr>res_status = 204, res_body = None\<rparr>, example_db\<lparr>tasks := []\<rparr>)"
    using p(2) pd(2) f(2) e by (simp_all split: sum.splits option.splits)
  from owner_lookup_decides_access[OF auth_example_t1[of "Fraction 1" "[]"],
         where d = example_db and now = 50]
  have frac: "guarded example_libs example_env delete_tasks_id example_db ?frac
       = Inr (json_response 500 (error_detail_body ''Error borrando tarea'' validation_error),
              example_db)"
    using p(3) f(3) by (simp split: sum.splits option.splits)
  from owner_lookup_decides_access[OF auth_example_t1[of NaN "[]"],
         where d = example_db and now = 50]
  have nan: "guarded example_libs example_env delete_tasks_id example_db ?nan
       = Inr (json_response 400 (error_body msg_id_invalido), example_db)"
    using p(4) by simp
  from bob ana frac nan show ?thesis by blast
qed

text \<open>
  C1 as stated (404 whenever the lookup finds no row, and permitted whenever it
  finds one) does not hold for every authenticated request: a \<^verbatim>\<open>PATCH\<close> with an empty
  body is answered 400 before the store is asked. Bob's empty update of Ana's task
  gets 400 and not 404, and Ana's empty update of her own task gets 400 as well.
\<close>

theorem owner_lookup_counterexample:
  "auth example_libs example_env (request_of ''t2'' (Num 1) []) = Inr \<lparr>ru_id = 2, ru_role = ''USER''\<rparr>
   \<and> task_findFirst example_db (Num 1) 2 = Inr None
   \<and> guarded example_libs example_env (patch_tasks_id 50) example_db (request_of ''t2'' (Num 1) [])
       = Inr (json_response 400 (error_body ''Nada que actualizar''), example_db)
   \<and> res_status (json_response 400 (error_body ''Nada que actualizar'')) \<noteq> 404
   \<and> task_findFirst example_db (Num 1) 1 = Inr (Some milk)
   \<and> guarded example_libs example_env (patch_tasks_id 50) example_db (request_of ''t1'' (Num 1) [])
       = Inr (json_response 400 (error_body ''Nada que actualizar''), example_db)"
proof -
  have f: "task_findFirst example_db (Num 1) 2 = Inr None"
      "task_findFirst example_db (Num 1) 1 = Inr (Some milk)"
    by (simp_all add: task_findFirst_def id_arg_def id_fits_def example_db_def milk_def)
  have r: "\<And>tok u. auth example_libs example_env (request_of tok (Num 1) []) = Inr u \<Longrightarrow>
     guarded example_libs example_env (patch_tasks_id 50) example_db (request_of tok (Num 1) [])
       = Inr (json_response 400 (error_body ''Nada que actualizar''), example_db)"
    by (simp add: guarded_def patch_tasks_id_def patch_data_def request_of_def body_of_def)
  show ?thesis
    using f r[OF auth_example_t1] r[OF auth_example_t2] auth_example_t2
    by (simp add: json_response_def)
qed

lemma user_select_no_password: "\<not> has_key ''password'' (user_select u)"
  by (simp add: user_select_def)

lemma user_select_list_no_password: "\<not> has_key_elems ''password'' (map user_select us)"
  by (induction us) (simp_all add: user_select_no_password)

lemma error_bodies_no_password:
  "\<not> has_key ''password'' (error_body msg)"
  "\<not> has_key ''password'' (error_detail_body msg e)"
  by (simp_all add: error_body_def error_detail_body_def)

lemma user_token_no_password:
  "\<not> has_key ''password'' (JObj [(''user'', user_select u), (''token'', JStr token)])"
  by (simp add: user_select_no_password)

lemma body_has_key_json:
  "body_has_key k (json_response s v) = has_key k v"
  by (simp add: body_has_key_def json_response_def)

lemma get_users_no_password: "\<not> body_has_key ''password'' (fst (get_users d))"
  by (simp add: get_users_def body_has_key_json user_findMany_def user_select_list_no_password)

lemma post_auth_register_shape:
  "(\<exists>msg. fst (post_auth_register L pe now d req) = json_response 400 (error_body msg))
   \<or> (\<exists>msg. fst (post_auth_register L pe now d req) = json_response 409 (error_body msg))
   \<or> (\<exists>msg e. fst (post_auth_register L pe now d req) = json_response 500 (error_detail_body msg e))
   \<or> (\<exists>u token. fst (post_auth_register L pe now d req)
         = json_response 201 (JObj [(''user'', user_select u), (''token'', JStr token)]))"
  by (auto simp: post_auth_register_def Let_def split: sum.splits option.splits prod.splits)

lemma post_auth_login_shape:
  "(\<exists>msg. fst (post_auth_login L pe d req) = json_response 400 (error_body msg))
   \<or> (\<exists>msg. fst (post_auth_login L pe d req) = json_response 401 (error_body msg))
   \<or> (\<exists>msg e. fst (post_auth_login L pe d req) = json_response 500 (error_detail_body msg e))
   \<or> (\<exists>u token. u \<in> set (users d) \<and> fst (post_auth_login L pe d req)
         = json_response 200 (JObj [(''user'', user_select u), (''token'', JStr token)]))"
proof -
  have m: "\<And>e u. user_findUnique_email d e = Inr (Some u) \<Longrightarrow> u \<in> set (users d)"
    by (auto simp: user_findUnique_email_def find_Some_iff split: jsval.splits)
  show ?thesis
    by (auto simp: post_auth_login_def Let_def dest: m split: sum.splits option.splits prod.splits)
qed

lemma post_users_shape:
  "(\<exists>s msg. s \<in> {400, 404, 409} \<and> fst (post_users L pe now d req) = json_response s (error_body msg))
   \<or> (\<exists>msg e. fst (post_users L pe now d req) = json_response 500 (error_detail_body msg e))
   \<or> (\<exists>u. fst (post_users L pe now d req) = json_response 201 (user_select u))"
  by (auto simp: post_users_def Let_def split: sum.splits option.splits prod.splits)

lemma get_me_shape:
  assumes "guarded L pe get_me d req = Inr (r, d')"
  shows "(\<exists>msg. r = json_response 401 (error_body msg))
       \<or> (\<exists>msg e. r = json_response 500 (error_detail_body msg e))
       \<or> r = json_response 200 JNull
       \<or> (\<exists>u \<in> set (users d). r = json_response 200 (user_select u))"
proof (cases "auth L pe req")
  case (Inl rej)
  with assms have "r = rej" by (simp add: guarded_def)
  with auth_rejects[OF Inl] show ?thesis by blast
next
  case (Inr usr)
  have m: "\<And>i u. user_findUnique_id d i = Inr (Some u) \<Longrightarrow> u \<in> set (users d)"
    by (auto simp: user_findUnique_id_def find_Some_iff split: sum.splits)
  from assms Inr have g: "get_me usr d req = Inr (r, d')" by (simp add: guarded_def)
  show ?thesis
  proof (cases "user_findUnique_id d (ru_id usr)")
    case (Inl e)
    with g show ?thesis by (auto simp: get_me_def)
  next
    case (Inr found)
    show ?thesis
    proof (cases found)
      case None
      with g Inr show ?thesis by (auto simp: get_me_def)
    next
      case (Some v)
      with Inr have "v \<in> set (users d)" using m by blast
      moreover from g Inr Some have "r = json_response 200 (user_select v)"
        by (auto simp: get_me_def)
      ultimately show ?thesis by blast
    qed
  qed
qed

text \<open>
  C2. In the last revision of \<^verbatim>\<open>app.js\<close>, every user object in a response of
  \<^verbatim>\<open>GET /users\<close>, of a successful registration or login and of \<^verbatim>\<open>/me\<close> is the selection
  \<open>user_select\<close>, whose properties are \<^verbatim>\<open>id\<close>, \<^verbatim>\<open>email\<close>, \<^verbatim>\<open>name\<close>, \<^verbatim>\<open>role\<close> and \<^verbatim>\<open>createdAt\<close>
  and no other; and no response body of these routes (nor of the development-only
  \<^verbatim>\<open>POST /users\<close>), whether a success or an error, has a property named \<^verbatim>\<open>password\<close> at
  any depth.
\<close>

theorem user_objects_carry_five_fields:
  "(\<exists>kvs. user_select u = JObj kvs
         \<and> map fst kvs = [''id'', ''email'', ''name'', ''role'', ''createdAt''])
   \<and> get_users d = (json_response 200 (JArr (map user_select (users d))), d)
   \<and> (res_status (fst (post_auth_register L pe now d req)) = 201 \<longrightarrow>
        (\<exists>v token. fst (post_auth_register L pe now d req)
           = json_response 201 (JObj [(''user'', user_select v), (''token'', JStr token)])))
   \<and> (res_status (fst (post_auth_login L pe d req)) = 200 \<longrightarrow>
        (\<exists>v token. v \<in> set (users d) \<and> fst (post_auth_login L pe d req)
           = json_response 200 (JObj [(''user'', user_select v), (''token'', JStr token)])))
   \<and> (\<forall>r d'. guarded L pe get_me d req = Inr (r, d') \<and> res_status r = 200 \<longrightarrow>
        r = json_response 200 JNull \<or> (\<exists>v \<in> set (users d). r = json_response 200 (user_select v)))
   \<and> \<not> body_has_key ''password'' (fst (get_users d))
   \<and> \<not> body_has_key ''password'' (fst (post_auth_register L pe now d req))
   \<and> \<not> body_has_key ''password'' (fst (post_auth_login L pe d req))
   \<and> (\<forall>r d'. guarded L pe get_me d req = Inr (r, d') \<longrightarrow> \<not> body_has_key ''password'' r)
   \<and> \<not> body_has_key ''password'' (fst (post_users L pe now d req))"
proof -
  have sel: "\<exists>kvs. user_select u = JObj kvs
         \<and> map fst kvs = [''id'', ''email'', ''name'', ''role'', ''createdAt'']"
    by (simp add: user_select_def)
  have lst: "get_users d = (json_response 200 (JArr (map user_select (users d))), d)"
    by (simp add: get_users_def user_findMany_def)
  have reg: "res_status (fst (post_auth_register L pe now d req)) = 201 \<longrightarrow>
        (\<exists>v token. fst (post_auth_register L pe now d req)
           = json_response 201 (JObj [(''user'', user_select v), (''token'', JStr token)]))"
    using post_auth_register_shape[of L pe now d req] by (auto simp: json_response_def)
  have log: "res_status (fst (post_auth_login L pe d req)) = 200 \<longrightarrow>
        (\<exists>v token. v \<in> set (users d) \<and> fst (post_auth_login L pe d req)
           = json_response 200 (JObj [(''user'', user_select v), (''token'', JStr token)]))"
    using post_auth_login_shape[of L pe d req] by (auto simp: json_response_def)
  have me: "\<forall>r d'. guarded L pe get_me d req = Inr (r, d') \<and> res_status r = 200 \<longrightarrow>
        r = json_response 200 JNull \<or> (\<exists>v \<in> set (users d). r = json_response 200 (user_select v))"
    using get_me_shape[of L pe d req] by (fastforce simp: json_response_def)
  have p1: "\<not> body_has_key ''password'' (fst (get_users d))"
    by (rule get_users_no_password)
  have p2: "\<not> body_has_key ''password'' (fst (post_auth_register L pe now d req))"
    using post_auth_register_shape[of L pe now d req]
    by (auto simp: body_has_key_json error_bodies_no_password user_select_no_password)
  have p3: "\<not> body_has_key ''password'' (fst (post_auth_login L pe d req))"
    using post_auth_login_shape[of L pe d req]
    by (auto simp: body_has_key_json error_bodies_no_password user_select_no_password)
  have p4: "\<forall>r d'. guarded L pe get_me d req = Inr (r, d') \<longrightarrow> \<not> body_has_key ''password'' r"
    using get_me_shape[of L pe d req]
    by (fastforce simp: body_has_key_json error_bodies_no_password user_select_no_password)
  have p5: "\<not> body_has_key ''password'' (fst (post_users L pe now d req))"
    using post_users_shape[of L pe now d req]
    by (auto simp: body_has_key_json error_bodies_no_password user_select_no_password)
  from sel lst reg log me p1 p2 p3 p4 p5 show ?thesis by blast
qed

lemma login_success:
  "post_auth_login example_libs example_env example_db
      (request_of [] NaN [(''email'', JStr ''ana@example.com''), (''password'', JStr ''pass1'')])
     = (json_response 200 (JObj [(''user'', user_select ana), (''token'', JStr ''t1'')]), example_db)"
  by (simp add: post_auth_login_def request_of_def body_of_def falsy_def user_findUnique_email_def
      example_db_def example_libs_def example_env_def ana_def bob_def JWT_SECRET_def or_default_def
      show_int_def show_nat.simps digit_char_def)

theorem user_objects_witness:
  "get_users example_db = (json_response 200 (JArr [user_select ana, user_select bob]), example_db)
   \<and> \<not> body_has_key ''password'' (fst (get_users example_db))
   \<and> (\<exists>v token. v \<in> set (users example_db)
        \<and> fst (post_auth_login example_libs example_env example_db
              (request_of [] NaN [(''email'', JStr ''ana@example.com''),
                                  (''password'', JStr ''pass1'')]))
           = json_response 200 (JObj [(''user'', user_select v), (''token'', JStr token)]))
   \<and> \<not> body_has_key ''password''
         (fst (post_auth_login example_libs example_env example_db
              (request_of [] NaN [(''email'', JStr ''ana@example.com''),
                                  (''password'', JStr ''pass1'')])))"
proof -
  let ?r = "request_of [] NaN [(''email'', JStr ''ana@example.com''), (''password'', JStr ''pass1'')]"
  have s: "res_status (fst (post_auth_login example_libs example_env example_db ?r)) = 200"
    by (simp add: login_success json_response_def)
  have u: "map user_select (users example_db) = [user_select ana, user_select bob]"
    by (simp add: example_db_def)
  note T = user_objects_carry_five_fields[where d = example_db and L = example_libs
         and pe = example_env and req = ?r and u = ana and now = 0]
  from T have a: "get_users example_db
      = (json_response 200 (JArr (map user_select (users example_db))), example_db)"
    by blast
  from T have b: "\<not> body_has_key ''password'' (fst (get_users example_db))"
    by blast
  from T s have c: "\<exists>v token. v \<in> set (users example_db)
        \<and> fst (post_auth_login example_libs example_env example_db ?r)
           = json_response 200 (JObj [(''user'', user_select v), (''token'', JStr token)])"
    by blast
  from T have e: "\<not> body_has_key ''password''
         (fst (post_auth_login example_libs example_env example_db ?r))"
    by blast
  from a b c e show ?thesis unfolding u by blast
qed

lemma seed_main_password:
  assumes "seed_main now d = (None, d')"
  shows "\<exists>u. users d' = users d @ [u] \<and> u_password u = ''admin123''"
  using assms
  by (auto simp: seed_main_def company_create_def user_create_def Let_def split: if_splits)

lemma user_create_Inr:
  assumes "user_create d now e p n r c = Inr (u, d')"
  shows "\<exists>email password name.
           e = JStr email \<and> p = JStr password \<and> n = JStr name
           \<and> find (\<lambda>x. u_email x = email) (users d) = None
           \<and> u = \<lparr>u_id = next_user_id d, u_email = email, u_password = password, u_name = name,
                   u_role = (case r of None \<Rightarrow> default_role | Some role \<Rightarrow> role),
                   u_createdAt = now, u_companyId = c\<rparr>
           \<and> d' = d\<lparr>users := users d @ [u], next_user_id := next_user_id d + 1\<rparr>"
  using assms
  by (auto simp: user_create_def Let_def split: jsval.splits if_splits)

lemma post_users_created:
  assumes "post_users L pe now d req = (r, d')" and "res_status r = 201"
  shows "\<exists>u. bcrypt_hash L (body req ''password'') 10 = Inr (u_password u)
             \<and> users d' = users d @ [u] \<and> r = json_response 201 (user_select u)"
proof -
  from assms obtain ph u where h: "bcrypt_hash L (body req ''password'') 10 = Inr ph"
    and c: "user_create d now (body req ''email'') (JStr ph) (body req ''name'') None None = Inr (u, d')"
    and r: "r = json_response 201 (user_select u)"
    by (auto simp: post_users_def Let_def json_response_def split: if_splits sum.splits prod.splits)
  from user_create_Inr[OF c] have "u_password u = ph" "users d' = users d @ [u]" by auto
  with h r show ?thesis by auto
qed

text \<open>
  C3. The seed script creates the administrator with the literal password it was
  given: after \<^verbatim>\<open>main()\<close> on the empty store the password field of the persisted
  user is the plaintext \<^verbatim>\<open>admin123\<close>, and no hash function was called.
\<close>

theorem seed_stores_plaintext_password:
  "seed_main 0 empty_db
     = (None,
        \<lparr>users = [\<lparr>u_id = 1, u_email = ''admin@taskscompleted.com'', u_password = ''admin123'',
                    u_name = ''Admin'', u_role = ''ADMIN'', u_createdAt = 0,
                    u_companyId = Some 1\<rparr>],
         tasks = [], companies = [\<lparr>c_id = 1, c_name = ''TasksCompleted''\<rparr>],
         next_user_id = 2, next_task_id = 1, next_company_id = 2,
         id_min = - 2147483648, id_max = 2147483647\<rparr>)"
  by (simp add: seed_main_def company_create_def user_create_def empty_db_def Let_def)

lemma js_trim_spaces: "js_trim ''  '' = []"
  by (simp add: js_trim_def is_space_def)

lemma task_create_stored:
  assumes "id_fits d uid" and "find (\<lambda>u. u_id u = uid) (users d) \<noteq> None"
  shows "task_create d now (JStr s) uid =
           Inr (\<lparr>t_id = next_task_id d, t_title = s, t_completed = False, t_userId = uid,
                  t_createdAt = now, t_updatedAt = now\<rparr>,
                d\<lparr>tasks := tasks d @
                      [\<lparr>t_id = next_task_id d, t_title = s, t_completed = False, t_userId = uid,
                        t_createdAt = now, t_updatedAt = now\<rparr>],
                  next_task_id := next_task_id d + 1\<rparr>)"
  using assms by (simp add: task_create_def id_arg_Num Let_def)

lemma task_create_Inr:
  assumes "task_create d now title uid = Inr (t, d')"
  shows "tasks d' = tasks d @ [t] \<and> t_userId t = uid \<and> id_fits d uid
       \<and> find (\<lambda>u. u_id u = uid) (users d) \<noteq> None \<and> (\<exists>s. title = JStr s \<and> t_title t = s)"
  using assms
  by (auto simp: task_create_def Let_def id_arg_Inr split: jsval.splits sum.splits if_splits)

lemma post_tasks_created:
  assumes "truthy (body req ''title'')" and "js_String (body req ''title'') = Inr s"
    and "id_fits d (ru_id usr)" and "find (\<lambda>u. u_id u = ru_id usr) (users d) \<noteq> None"
  shows "post_tasks now usr d req =
           Inr (json_response 201
                  (task_row \<lparr>t_id = next_task_id d, t_title = js_trim s,
                             t_completed = False, t_userId = ru_id usr,
                             t_createdAt = now, t_updatedAt = now\<rparr>),
                d\<lparr>tasks := tasks d @
                      [\<lparr>t_id = next_task_id d, t_title = js_trim s,
                        t_completed = False, t_userId = ru_id usr,
                        t_createdAt = now, t_updatedAt = now\<rparr>],
                  next_task_id := next_task_id d + 1\<rparr>)"
  using assms(1,2) by (simp add: post_tasks_def falsy_def task_create_stored[OF assms(3,4)])

lemma post_tasks_stores_trimmed_title:
  assumes "truthy (body req ''title'')" and "js_String (body req ''title'') = Inr s"
    and "id_fits d (ru_id usr)" and "find (\<lambda>u. u_id u = ru_id usr) (users d) \<noteq> None"
  shows "\<exists>r d'. post_tasks now usr d req = Inr (r, d')
           \<and> map t_title (tasks d') = map t_title (tasks d) @ [js_trim s]"
  unfolding post_tasks_created[OF assms] by simp

lemma patch_tasks_id_stores_trimmed_title:
  assumes "body req ''title'' \<noteq> JUndefined" and "js_String (body req ''title'') = Inr s"
    and "task_findFirst d (params_id req) (ru_id usr) = Inr (Some t)"
  shows "\<exists>r d'. patch_tasks_id now usr d req = Inr (r, d')
           \<and> (\<forall>x \<in> set (tasks d'). t_id x = t_id t \<longrightarrow> t_title x = js_trim s)"
proof -
  let ?data = "(''title'', JStr (js_trim s)) #
                (if body req ''completed'' \<noteq> JUndefined
                 then [(''completed'', JBool (truthy (body req ''completed'')))] else [])"
  have pd: "patch_data req = Inr ?data" by (rule patch_data_title[OF assms(1,2)])
  have ne: "?data \<noteq> []" by simp
  from patch_tasks_id_found[OF pd ne assms(3), of now]
  obtain t' where r: "patch_tasks_id now usr d req =
       Inr (json_response 200 (task_row (apply_data ?data now t')),
            d\<lparr>tasks := map (\<lambda>x. if t_id x = t_id t then apply_data ?data now x else x)
                            (tasks d)\<rparr>)"
    by blast
  have c: "\<And>x. t_title (apply_data ?data now x) = js_trim s"
    by (simp add: apply_data_def)
  show ?thesis unfolding r using c by auto
qed

text \<open>
  C4. The title is trimmed before it is stored (the two lemmas above), but a title
  that is empty after trimming is not rejected. \<^verbatim>\<open>POST /tasks\<close> tests \<^verbatim>\<open>!title\<close> on the
  untrimmed value, so the string of two spaces passes the test and a task with the
  empty title is created with status 201; \<^verbatim>\<open>PATCH /tasks/:id\<close> has no test of the
  title at all and stores the empty title with status 200.
\<close>

theorem blank_title_is_stored:
  "guarded example_libs example_env (post_tasks 50) example_db
      (request_of ''t1'' NaN [(''title'', JStr ''  '')])
     = Inr (json_response 201
          (task_row \<lparr>t_id = 2, t_title = [], t_completed = False, t_userId = 1,
                     t_createdAt = 50, t_updatedAt = 50\<rparr>),
        example_db\<lparr>tasks := [milk, \<lparr>t_id = 2, t_title = [], t_completed = False, t_userId = 1,
                                    t_createdAt = 50, t_updatedAt = 50\<rparr>],
                    next_task_id := 3\<rparr>)
   \<and> guarded example_libs example_env (patch_tasks_id 50) example_db
      (request_of ''t1'' (Num 1) [(''title'', JStr ''  '')])
     = Inr (json_response 200 (task_row (milk\<lparr>t_title := [], t_updatedAt := 50\<rparr>)),
        example_db\<lparr>tasks := [milk\<lparr>t_title := [], t_updatedAt := 50\<rparr>]\<rparr>)"
proof -
  let ?r = "request_of ''t1'' NaN [(''title'', JStr ''  '')]"
  let ?q = "request_of ''t1'' (Num 1) [(''title'', JStr ''  '')]"
  have t: "body ?r ''title'' = JStr ''  ''" "body ?q ''title'' = JStr ''  ''"
      "body ?q ''completed'' = JUndefined" "params_id ?q = Num 1"
    by (simp_all add: request_of_def body_of_def)
  have post: "post_tasks 50 \<lparr>ru_id = 1, ru_role = ''USER''\<rparr> example_db ?r
     = Inr (json_response 201
          (task_row \<lparr>t_id = 2, t_title = [], t_completed = False, t_userId = 1,
                     t_createdAt = 50, t_updatedAt = 50\<rparr>),
        example_db\<lparr>tasks := [milk, \<lparr>t_id = 2, t_title = [], t_completed = False, t_userId = 1,
                                    t_createdAt = 50, t_updatedAt = 50\<rparr>],
                    next_task_id := 3\<rparr>)"
    by (simp add: post_tasks_def t falsy_def task_create_def id_arg_def id_fits_def
        js_trim_spaces example_db_def ana_def Let_def)
  have patch: "patch_tasks_id 50 \<lparr>ru_id = 1, ru_role = ''USER''\<rparr> example_db ?q
     = Inr (json_response 200 (task_row (milk\<lparr>t_title := [], t_updatedAt := 50\<rparr>)),
        example_db\<lparr>tasks := [milk\<lparr>t_title := [], t_updatedAt := 50\<rparr>]\<rparr>)"
    by (simp add: patch_tasks_id_def patch_data_def t task_findFirst_def task_update_def
        id_arg_def id_fits_def data_ok_def apply_data_def js_trim_spaces example_db_def milk_def
        Let_def)
  show ?thesis
    by (simp only: guarded_auth[OF auth_example_t1] post patch)
qed

lemma post_tasks_reads_title_only:
  "body req' ''title'' = body req ''title'' \<Longrightarrow> post_tasks now usr d req' = post_tasks now usr d req"
  by (simp add: post_tasks_def)

lemma post_tasks_outcome:
  "\<exists>r d'. post_tasks now usr d req = Inr (r, d')
     \<and> (tasks d' = tasks d \<and> res_status r \<noteq> 201
         \<or> (\<exists>t. tasks d' = tasks d @ [t] \<and> t_userId t = ru_id usr
                \<and> r = json_response 201 (task_row t)))"
proof (cases "falsy (body req ''title'')")
  case True
  then show ?thesis by (simp add: post_tasks_def json_response_def)
next
  case False
  show ?thesis
  proof (cases "js_String (body req ''title'')")
    case (Inl e)
    with False show ?thesis by (simp add: post_tasks_def json_response_def)
  next
    case (Inr s)
    show ?thesis
    proof (cases "task_create d now (JStr (js_trim s)) (ru_id usr)")
      case (Inl e)
      with False Inr show ?thesis by (simp add: post_tasks_def json_response_def)
    next
      case c: (Inr res)
      obtain t d' where res: "res = (t, d')" by (cases res)
      from task_create_Inr[OF c[unfolded res]]
      have "tasks d' = tasks d @ [t]" "t_userId t = ru_id usr" by auto
      with False Inr c res show ?thesis by (simp add: post_tasks_def)
    qed
  qed
qed

text \<open>
  C5. For an authenticated \<^verbatim>\<open>POST /tasks\<close>: two requests of the same caller whose
  bodies differ in one property other than \<^verbatim>\<open>title\<close> (an \<^verbatim>\<open>owner\<close> or \<^verbatim>\<open>userId\<close>
  property, say) have the same outcome, response and store; the request always
  ends with a response, and it adds no row (and the status is not 201) or exactly
  one, which is the row returned with status 201 and whose owner is the caller's
  subject id; and it does add one, with the trimmed title, when the title is
  truthy, \<^verbatim>\<open>String(title)\<close> does not throw, and the caller is a stored user with an
  id of the store's id type.
\<close>

theorem created_task_is_owned_by_caller:
  assumes "auth L pe req = Inr usr" and "authorization req' = authorization req"
    and "\<forall>k. k \<noteq> f \<longrightarrow> body req' k = body req k" and "f \<noteq> ''title''"
  shows "guarded L pe (post_tasks now) d req' = guarded L pe (post_tasks now) d req
       \<and> (\<exists>r d'. guarded L pe (post_tasks now) d req = Inr (r, d')
            \<and> (tasks d' = tasks d \<and> res_status r \<noteq> 201
                \<or> (\<exists>t. tasks d' = tasks d @ [t] \<and> t_userId t = ru_id usr
                       \<and> r = json_response 201 (task_row t))))
       \<and> (\<forall>s. truthy (body req ''title'') \<and> js_String (body req ''title'') = Inr s
              \<and> id_fits d (ru_id usr) \<and> find (\<lambda>u. u_id u = ru_id usr) (users d) \<noteq> None \<longrightarrow>
            (\<exists>t d'. guarded L pe (post_tasks now) d req = Inr (json_response 201 (task_row t), d')
                \<and> t_userId t = ru_id usr \<and> t_title t = js_trim s
                \<and> tasks d' = tasks d @ [t]))"
proof -
  have a': "auth L pe req' = Inr usr"
    using assms(1) auth_reads_header_only[OF assms(2)] by simp
  have t: "body req' ''title'' = body req ''title''"
    using assms(3,4) by auto
  have same: "guarded L pe (post_tasks now) d req' = guarded L pe (post_tasks now) d req"
    by (simp add: guarded_auth[OF assms(1)] guarded_auth[OF a'] post_tasks_reads_title_only[OF t])
  have out: "\<exists>r d'. guarded L pe (post_tasks now) d req = Inr (r, d')
            \<and> (tasks d' = tasks d \<and> res_status r \<noteq> 201
                \<or> (\<exists>t. tasks d' = tasks d @ [t] \<and> t_userId t = ru_id usr
                       \<and> r = json_response 201 (task_row t)))"
    unfolding guarded_auth[OF assms(1)] by (rule post_tasks_outcome)
  have live: "\<forall>s. truthy (body req ''title'') \<and> js_String (body req ''title'') = Inr s
              \<and> id_fits d (ru_id usr) \<and> find (\<lambda>u. u_id u = ru_id usr) (users d) \<noteq> None \<longrightarrow>
            (\<exists>t d'. guarded L pe (post_tasks now) d req = Inr (json_response 201 (task_row t), d')
                \<and> t_userId t = ru_id usr \<and> t_title t = js_trim s
                \<and> tasks d' = tasks d @ [t])"
  proof (intro allI impI)
    fix s
    assume h: "truthy (body req ''title'') \<and> js_String (body req ''title'') = Inr s
              \<and> id_fits d (ru_id usr) \<and> find (\<lambda>u. u_id u = ru_id usr) (users d) \<noteq> None"
    then have c: "truthy (body req ''title'')" "js_String (body req ''title'') = Inr s"
        "id_fits d (ru_id usr)" "find (\<lambda>u. u_id u = ru_id usr) (users d) \<noteq> None"
      by simp_all
    show "\<exists>t d'. guarded L pe (post_tasks now) d req = Inr (json_response 201 (task_row t), d')
                \<and> t_userId t = ru_id usr \<and> t_title t = js_trim s
                \<and> tasks d' = tasks d @ [t]"
      unfolding guarded_auth[OF assms(1)] post_tasks_created[OF c]
      by (intro exI[where x = "\<lparr>t_id = next_task_id d, t_title = js_trim s,
                             t_completed = False, t_userId = ru_id usr,
                             t_createdAt = now, t_updatedAt = now\<rparr>"]) simp
  qed
  from same out live show ?thesis by blast
qed

theorem created_task_owner_witness:
  "guarded example_libs example_env (post_tasks 50) example_db
      (request_of ''t1'' NaN [(''title'', JStr '' call Bob ''), (''userId'', JNum 2)])
     = guarded example_libs example_env (post_tasks 50) example_db
      (request_of ''t1'' NaN [(''title'', JStr '' call Bob '')])
   \<and> (\<exists>t d'. guarded example_libs example_env (post_tasks 50) example_db
      (request_of ''t1'' NaN [(''title'', JStr '' call Bob ''), (''userId'', JNum 2)])
        = Inr (json_response 201 (task_row t), d')
       \<and> t_userId t = 1 \<and> t_title t = ''call Bob'' \<and> tasks d' = tasks example_db @ [t])"
proof -
  let ?r = "request_of ''t1'' NaN [(''title'', JStr '' call Bob '')]"
  let ?r' = "request_of ''t1'' NaN [(''title'', JStr '' call Bob ''), (''userId'', JNum 2)]"
  have h: "authorization ?r' = authorization ?r" by (simp add: request_of_def)
  have b: "\<forall>k. k \<noteq> ''userId'' \<longrightarrow> body ?r' k = body ?r k"
    by (simp add: request_of_def body_of_def)
  have n: "''userId'' \<noteq> ''title''" by simp
  have t: "truthy (body ?r ''title'')" "js_String (body ?r ''title'') = Inr '' call Bob ''"
    by (simp_all add: request_of_def body_of_def)
  have u: "id_fits example_db (ru_id \<lparr>ru_id = 1, ru_role = ''USER''\<rparr>)"
      "find (\<lambda>u. u_id u = ru_id \<lparr>ru_id = 1, ru_role = ''USER''\<rparr>) (users example_db) \<noteq> None"
    by (simp_all add: id_fits_def example_db_def ana_def)
  have tr: "js_trim '' call Bob '' = ''call Bob''"
    by (simp add: js_trim_def is_space_def)
  note T = created_task_is_owned_by_caller[OF auth_example_t1 h b n,
             where d = example_db and now = 50]
  from T have same: "guarded example_libs example_env (post_tasks 50) example_db ?r'
     = guarded example_libs example_env (post_tasks 50) example_db ?r"
    by blast
  from T t u have "\<exists>t d'. guarded example_libs example_env (post_tasks 50) example_db ?r
        = Inr (json_response 201 (task_row t), d')
       \<and> t_userId t = ru_id \<lparr>ru_id = 1, ru_role = ''USER''\<rparr>
       \<and> t_title t = js_trim '' call Bob '' \<and> tasks d' = tasks example_db @ [t]"
    by blast
  then have "\<exists>t d'. guarded example_libs example_env (post_tasks 50) example_db ?r
        = Inr (json_response 201 (task_row t), d')
       \<and> t_userId t = 1 \<and> t_title t = ''call Bob'' \<and> tasks d' = tasks example_db @ [t]"
    unfolding tr by simp
  with same show ?thesis by simp
qed




lemma find_email_None:
  assumes "user_findUnique_email d e = Inr None"
  shows "\<exists>em. e = JStr em \<and> find (\<lambda>u. u_email u = em) (users d) = None"
  using assms by (auto simp: user_findUnique_email_def split: jsval.splits)

lemma user_create_fresh:
  assumes "find (\<lambda>u. u_email u = em) (users d) = None"
  shows "user_create d now (JStr em) (JStr ph) (JStr nm) None None =
           Inr (\<lparr>u_id = next_user_id d, u_email = em, u_password = ph, u_name = nm,
                  u_role = default_role, u_createdAt = now, u_companyId = None\<rparr>,
                d\<lparr>users := users d @
                      [\<lparr>u_id = next_user_id d, u_email = em, u_password = ph, u_name = nm,
                        u_role = default_role, u_createdAt = now, u_companyId = None\<rparr>],
                  next_user_id := next_user_id d + 1\<rparr>)"
  using assms by (simp add: user_create_def Let_def)

lemma user_create_name_not_string:
  assumes "\<forall>s. n \<noteq> JStr s"
  shows "user_create d now e p n r c = Inl validation_error"
  using assms by (cases n) (simp_all add: user_create_def split: jsval.splits)

text \<open>
  C7, as amended. For a registration request:
  \<^item> if \<^verbatim>\<open>email\<close>, \<^verbatim>\<open>password\<close> or \<^verbatim>\<open>name\<close> is falsy (missing, \<^verbatim>\<open>null\<close> or the empty
    string, among others) the answer is 400 and the store is unchanged;
  \<^item> if all three are truthy and the store finds a user with that email, the answer
    is 409 and the store is unchanged;
  \<^item> if all three are truthy, the name is a string, the store finds no user with
    that email (which is then a string), and the hashing and the signing return a
    value, then one user is appended whose password field is the hash, and the
    answer is 201 with \<^verbatim>\<open>{ user, token }\<close>, the user object holding the fields id,
    email, name, role and createdAt and no other;
  \<^item> if all three are truthy and the email is not a string, or the store finds no
    user with that email and either the hashing throws or the name is not a
    string, the answer is 500 and the store is unchanged.
\<close>

theorem register_flow:
  "(falsy (body req ''email'') \<or> falsy (body req ''password'') \<or> falsy (body req ''name'') \<longrightarrow>
      post_auth_register L pe now d req
        = (json_response 400 (error_body ''email, password y name son obligatorios''), d))
   \<and> (truthy (body req ''email'') \<and> truthy (body req ''password'') \<and> truthy (body req ''name'')
        \<and> user_findUnique_email d (body req ''email'') = Inr (Some existing) \<longrightarrow>
      post_auth_register L pe now d req
        = (json_response 409 (error_body ''Ese email ya existe''), d))
   \<and> (truthy (body req ''email'') \<and> truthy (body req ''password'')
        \<and> body req ''name'' = JStr nm \<and> nm \<noteq> []
        \<and> user_findUnique_email d (body req ''email'') = Inr None
        \<and> bcrypt_hash L (body req ''password'') 10 = Inr ph
        \<and> jwt_sign L \<lparr>p_sub = next_user_id d, p_role = default_role\<rparr> (JWT_SECRET pe) (expiresIn pe)
            = Inr token \<longrightarrow>
      (\<exists>u. post_auth_register L pe now d req
              = (json_response 201 (JObj [(''user'', user_select u), (''token'', JStr token)]),
                 d\<lparr>users := users d @ [u], next_user_id := next_user_id d + 1\<rparr>)
           \<and> body req ''email'' = JStr (u_email u) \<and> u_name u = nm \<and> u_password u = ph
           \<and> u_id u = next_user_id d
           \<and> user_select u = JObj [(''id'', JNum (u_id u)), (''email'', JStr (u_email u)),
                                   (''name'', JStr (u_name u)), (''role'', JStr (u_role u)),
                                   (''createdAt'', JNum (u_createdAt u))]))
   \<and> (truthy (body req ''email'') \<and> truthy (body req ''password'') \<and> truthy (body req ''name'')
        \<and> (\<forall>s. body req ''email'' \<noteq> JStr s) \<longrightarrow>
      post_auth_register L pe now d req
        = (json_response 500 (error_detail_body ''Error en register'' validation_error), d))
   \<and> (truthy (body req ''email'') \<and> truthy (body req ''password'') \<and> truthy (body req ''name'')
        \<and> user_findUnique_email d (body req ''email'') = Inr None
        \<and> bcrypt_hash L (body req ''password'') 10 = Inl e \<longrightarrow>
      post_auth_register L pe now d req
        = (json_response 500 (error_detail_body ''Error en register'' e), d))
   \<and> (truthy (body req ''email'') \<and> truthy (body req ''password'') \<and> truthy (body req ''name'')
        \<and> user_findUnique_email d (body req ''email'') = Inr None
        \<and> bcrypt_hash L (body req ''password'') 10 = Inr ph
        \<and> (\<forall>s. body req ''name'' \<noteq> JStr s) \<longrightarrow>
      post_auth_register L pe now d req
        = (json_response 500 (error_detail_body ''Error en register'' validation_error), d))
   \<and> falsy JUndefined \<and> falsy JNull \<and> falsy (JStr [])"
proof -
  have bad: "falsy (body req ''email'') \<or> falsy (body req ''password'') \<or> falsy (body req ''name'') \<longrightarrow>
      post_auth_register L pe now d req
        = (json_response 400 (error_body ''email, password y name son obligatorios''), d)"
    by (auto simp: post_auth_register_def)
  have dup: "truthy (body req ''email'') \<and> truthy (body req ''password'') \<and> truthy (body req ''name'')
        \<and> user_findUnique_email d (body req ''email'') = Inr (Some existing) \<longrightarrow>
      post_auth_register L pe now d req
        = (json_response 409 (error_body ''Ese email ya existe''), d)"
    by (simp add: post_auth_register_def falsy_def)
  have ok: "truthy (body req ''email'') \<and> truthy (body req ''password'')
        \<and> body req ''name'' = JStr nm \<and> nm \<noteq> []
        \<and> user_findUnique_email d (body req ''email'') = Inr None
        \<and> bcrypt_hash L (body req ''password'') 10 = Inr ph
        \<and> jwt_sign L \<lparr>p_sub = next_user_id d, p_role = default_role\<rparr> (JWT_SECRET pe) (expiresIn pe)
            = Inr token \<longrightarrow>
      (\<exists>u. post_auth_register L pe now d req
              = (json_response 201 (JObj [(''user'', user_select u), (''token'', JStr token)]),
                 d\<lparr>users := users d @ [u], next_user_id := next_user_id d + 1\<rparr>)
           \<and> body req ''email'' = JStr (u_email u) \<and> u_name u = nm \<and> u_password u = ph
           \<and> u_id u = next_user_id d
           \<and> user_select u = JObj [(''id'', JNum (u_id u)), (''email'', JStr (u_email u)),
                                   (''name'', JStr (u_name u)), (''role'', JStr (u_role u)),
                                   (''createdAt'', JNum (u_createdAt u))])"
  proof
    assume h: "truthy (body req ''email'') \<and> truthy (body req ''password'')
        \<and> body req ''name'' = JStr nm \<and> nm \<noteq> []
        \<and> user_findUnique_email d (body req ''email'') = Inr None
        \<and> bcrypt_hash L (body req ''password'') 10 = Inr ph
        \<and> jwt_sign L \<lparr>p_sub = next_user_id d, p_role = default_role\<rparr> (JWT_SECRET pe) (expiresIn pe)
            = Inr token"
    then obtain em where em: "body req ''email'' = JStr em"
        and fresh: "find (\<lambda>u. u_email u = em) (users d) = None"
      using find_email_None by blast
    let ?u = "\<lparr>u_id = next_user_id d, u_email = em, u_password = ph, u_name = nm,
                u_role = default_role, u_createdAt = now, u_companyId = None\<rparr>"
    have "post_auth_register L pe now d req
              = (json_response 201 (JObj [(''user'', user_select ?u), (''token'', JStr token)]),
                 d\<lparr>users := users d @ [?u], next_user_id := next_user_id d + 1\<rparr>)"
      using h em by (simp add: post_auth_register_def falsy_def user_create_fresh[OF fresh])
    then show "\<exists>u. post_auth_register L pe now d req
              = (json_response 201 (JObj [(''user'', user_select u), (''token'', JStr token)]),
                 d\<lparr>users := users d @ [u], next_user_id := next_user_id d + 1\<rparr>)
           \<and> body req ''email'' = JStr (u_email u) \<and> u_name u = nm \<and> u_password u = ph
           \<and> u_id u = next_user_id d
           \<and> user_select u = JObj [(''id'', JNum (u_id u)), (''email'', JStr (u_email u)),
                                   (''name'', JStr (u_name u)), (''role'', JStr (u_role u)),
                                   (''createdAt'', JNum (u_createdAt u))]"
      using em by (intro exI[where x = ?u]) (simp add: user_select_def)
  qed
  have e1: "truthy (body req ''email'') \<and> truthy (body req ''password'') \<and> truthy (body req ''name'')
        \<and> (\<forall>s. body req ''email'' \<noteq> JStr s) \<longrightarrow>
      post_auth_register L pe now d req
        = (json_response 500 (error_detail_body ''Error en register'' validation_error), d)"
    by (simp add: post_auth_register_def falsy_def find_email_not_string)
  have e2: "truthy (body req ''email'') \<and> truthy (body req ''password'') \<and> truthy (body req ''name'')
        \<and> user_findUnique_email d (body req ''email'') = Inr None
        \<and> bcrypt_hash L (body req ''password'') 10 = Inl e \<longrightarrow>
      post_auth_register L pe now d req
        = (json_response 500 (error_detail_body ''Error en register'' e), d)"
    by (simp add: post_auth_register_def falsy_def)
  have e3: "truthy (body req ''email'') \<and> truthy (body req ''password'') \<and> truthy (body req ''name'')
        \<and> user_findUnique_email d (body req ''email'') = Inr None
        \<and> bcrypt_hash L (body req ''password'') 10 = Inr ph
        \<and> (\<forall>s. body req ''name'' \<noteq> JStr s) \<longrightarrow>
      post_auth_register L pe now d req
        = (json_response 500 (error_detail_body ''Error en register'' validation_error), d)"
    by (simp add: post_auth_register_def falsy_def user_create_name_not_string)
  have f: "falsy JUndefined \<and> falsy JNull \<and> falsy (JStr [])" by (simp add: falsy_def)
  from bad dup ok e1 e2 e3 f show ?thesis by blast
qed

theorem register_flow_witness:
  "post_auth_register example_libs example_env 70 example_db
      (request_of [] NaN [(''email'', JStr ''eve@example.com''), (''password'', JStr ''pw'')])
     = (json_response 400 (error_body ''email, password y name son obligatorios''), example_db)
   \<and> post_auth_register example_libs example_env 70 example_db
      (request_of [] NaN [(''email'', JStr ''ana@example.com''), (''password'', JStr ''pw''),
                          (''name'', JStr ''Ana again'')])
     = (json_response 409 (error_body ''Ese email ya existe''), example_db)
   \<and> (\<exists>u. post_auth_register example_libs example_env 70 example_db
      (request_of [] NaN [(''email'', JStr ''eve@example.com''), (''password'', JStr ''pw''),
                          (''name'', JStr ''Eve'')])
     = (json_response 201 (JObj [(''user'', user_select u), (''token'', JStr ''t3'')]),
        example_db\<lparr>users := users example_db @ [u], next_user_id := next_user_id example_db + 1\<rparr>)
       \<and> u_password u = ''hash:wp'' \<and> u_id u = 3)
   \<and> post_auth_register example_libs example_env 70 example_db
      (request_of [] NaN [(''email'', JNum 123), (''password'', JStr ''pw''),
                          (''name'', JStr ''Eve'')])
     = (json_response 500 (error_detail_body ''Error en register'' validation_error), example_db)"
proof -
  let ?a = "request_of [] NaN [(''email'', JStr ''eve@example.com''), (''password'', JStr ''pw'')]"
  let ?b = "request_of [] NaN [(''email'', JStr ''ana@example.com''), (''password'', JStr ''pw''),
                          (''name'', JStr ''Ana again'')]"
  let ?c = "request_of [] NaN [(''email'', JStr ''eve@example.com''), (''password'', JStr ''pw''),
                          (''name'', JStr ''Eve'')]"
  let ?e = "request_of [] NaN [(''email'', JNum 123), (''password'', JStr ''pw''),
                          (''name'', JStr ''Eve'')]"
  have a: "falsy (body ?a ''name'')"
    by (simp add: request_of_def body_of_def falsy_def)
  have b: "truthy (body ?b ''email'')" "truthy (body ?b ''password'')" "truthy (body ?b ''name'')"
      "user_findUnique_email example_db (body ?b ''email'') = Inr (Some ana)"
    by (simp_all add: request_of_def body_of_def user_findUnique_email_def example_db_def ana_def)
  have c: "truthy (body ?c ''email'')" "truthy (body ?c ''password'')"
      "body ?c ''name'' = JStr ''Eve''" "''Eve'' \<noteq> []"
      "user_findUnique_email example_db (body ?c ''email'') = Inr None"
      "bcrypt_hash example_libs (body ?c ''password'') 10 = Inr ''hash:wp''"
      "jwt_sign example_libs \<lparr>p_sub = next_user_id example_db, p_role = default_role\<rparr>
          (JWT_SECRET example_env) (expiresIn example_env) = Inr ''t3''"
    by (simp_all add: request_of_def body_of_def user_findUnique_email_def example_db_def ana_def
        bob_def example_libs_def example_env_def JWT_SECRET_def or_default_def
        show_int_def show_nat.simps digit_char_def)
  have e: "truthy (body ?e ''email'')" "truthy (body ?e ''password'')" "truthy (body ?e ''name'')"
      "\<forall>s. body ?e ''email'' \<noteq> JStr s"
    by (simp_all add: request_of_def body_of_def)
  have n: "next_user_id example_db = 3" by (simp add: example_db_def)
  from register_flow[where req = ?a and L = example_libs and pe = example_env and now = 70
         and d = example_db] a
  have 1: "post_auth_register example_libs example_env 70 example_db ?a
     = (json_response 400 (error_body ''email, password y name son obligatorios''), example_db)"
    by blast
  from register_flow[where req = ?b and L = example_libs and pe = example_env and now = 70
         and d = example_db and existing = ana] b
  have 2: "post_auth_register example_libs example_env 70 example_db ?b
     = (json_response 409 (error_body ''Ese email ya existe''), example_db)"
    by blast
  from register_flow[where req = ?c and L = example_libs and pe = example_env and now = 70
         and d = example_db and nm = "''Eve''" and ph = "''hash:wp''" and token = "''t3''"] c
  have 3: "\<exists>u. post_auth_register example_libs example_env 70 example_db ?c
     = (json_response 201 (JObj [(''user'', user_select u), (''token'', JStr ''t3'')]),
        example_db\<lparr>users := users example_db @ [u], next_user_id := next_user_id example_db + 1\<rparr>)
       \<and> u_password u = ''hash:wp'' \<and> u_id u = 3"
    unfolding n by blast
  from register_flow[where req = ?e and L = example_libs and pe = example_env and now = 70
         and d = example_db] e
  have 4: "post_auth_register example_libs example_env 70 example_db ?e
     = (json_response 500 (error_detail_body ''Error en register'' validation_error), example_db)"
    by blast
  from 1 2 3 4 show ?thesis by blast
qed

text \<open>
  C7 as stated fails for a field that is present but not a string. With a fresh
  email, a string password and the number \<^verbatim>\<open>5\<close> as name, no field is missing or
  empty and no user has the email, yet the answer is 500 and not 201, and no user
  is persisted: the store refuses the name.
\<close>

theorem register_flow_counterexample:
  "truthy (JStr ''eve@example.com'') \<and> truthy (JStr ''pw'') \<and> truthy (JNum 5)
   \<and> user_findUnique_email example_db (JStr ''eve@example.com'') = Inr None
   \<and> post_auth_register example_libs example_env 70 example_db
      (request_of [] NaN [(''email'', JStr ''eve@example.com''), (''password'', JStr ''pw''),
                          (''name'', JNum 5)])
     = (json_response 500 (error_detail_body ''Error en register'' validation_error), example_db)
   \<and> res_status (json_response 500 (error_detail_body ''Error en register'' validation_error))
       \<noteq> 201"
  by (simp add: post_auth_register_def request_of_def body_of_def falsy_def
      user_findUnique_email_def user_create_def example_db_def example_libs_def ana_def bob_def
      json_response_def)

lemma start_with_secret:
  assumes "JWT_SECRET pe \<noteq> []" and "PORT pe = Num n" and "0 \<le> n" and "n \<le> 65535"
  shows "listening (app_main pe (Inr ()) initial_process) = Some n
       \<and> exit_code (app_main pe (Inr ()) initial_process) = None"
  using assms by (simp add: app_main_def start_def initial_process_def Let_def)

text \<open>
  C8. When the signing secret is not configured (the environment variable is
  absent or empty), \<^verbatim>\<open>start()\<close> throws before it connects to the store or calls
  \<^verbatim>\<open>app.listen\<close>, and the handler of the rejected promise exits the process with
  code 1: the server is never listening.
\<close>

theorem missing_secret_is_fatal:
  assumes "env_JWT_SECRET pe = None \<or> env_JWT_SECRET pe = Some []"
  shows "start pe connect p = (Some (JsError None ''Error'' ''Falta JWT_SECRET en el .env''), p)
       \<and> listening (app_main pe connect p) = listening p
       \<and> connected (app_main pe connect p) = connected p
       \<and> exit_code (app_main pe connect p) = Some 1
       \<and> listening (app_main pe connect initial_process) = None"
proof -
  from assms have s: "JWT_SECRET pe = []"
    by (auto simp: JWT_SECRET_def or_default_def)
  then have "\<And>q. start pe connect q = (Some (JsError None ''Error'' ''Falta JWT_SECRET en el .env''), q)"
    by (simp add: start_def)
  then show ?thesis
    by (simp add: app_main_def initial_process_def)
qed

theorem missing_secret_witness:
  "exit_code (app_main (example_env\<lparr>env_JWT_SECRET := None\<rparr>) (Inr ()) initial_process) = Some 1
   \<and> listening (app_main (example_env\<lparr>env_JWT_SECRET := None\<rparr>) (Inr ()) initial_process) = None
   \<and> exit_code (app_main (example_env\<lparr>env_JWT_SECRET := Some []\<rparr>) (Inr ()) initial_process) = Some 1
   \<and> listening (app_main (example_env\<lparr>env_JWT_SECRET := Some []\<rparr>) (Inr ()) initial_process) = None"
proof -
  have a: "env_JWT_SECRET (example_env\<lparr>env_JWT_SECRET := None\<rparr>) = None
           \<or> env_JWT_SECRET (example_env\<lparr>env_JWT_SECRET := None\<rparr>) = Some []"
    by simp
  have b: "env_JWT_SECRET (example_env\<lparr>env_JWT_SECRET := Some []\<rparr>) = None
           \<or> env_JWT_SECRET (example_env\<lparr>env_JWT_SECRET := Some []\<rparr>) = Some []"
    by simp
  from missing_secret_is_fatal[OF a, where connect = "Inr ()" and p = initial_process]
       missing_secret_is_fatal[OF b, where connect = "Inr ()" and p = initial_process]
  show ?thesis by (simp add: initial_process_def)
qed

text \<open>
  C9. An authenticated \<^verbatim>\<open>PATCH /tasks/:id\<close> whose body has neither a \<^verbatim>\<open>title\<close> nor a
  \<^verbatim>\<open>completed\<close> property is answered with status 400 and leaves the store as it was:
  with the invalid-id message when the id is not a number, and with the message
  \<^verbatim>\<open>Nada que actualizar\<close> when it is. It is never answered with 200.
\<close>

theorem patch_without_fields_is_rejected:
  assumes "auth L pe req = Inr usr"
    and "body req ''title'' = JUndefined" and "body req ''completed'' = JUndefined"
  shows "guarded L pe (patch_tasks_id now) d req =
           Inr (json_response 400
                  (error_body (case params_id req of NaN \<Rightarrow> msg_id_invalido
                                                    | _ \<Rightarrow> ''Nada que actualizar'')), d)"
proof -
  have e: "patch_data req = Inr []" using assms(2,3) by (simp add: patch_data_Nil_iff)
  show ?thesis
  proof (cases "params_id req = NaN")
    case True
    then show ?thesis by (simp add: guarded_auth[OF assms(1)] patch_tasks_id_NaN)
  next
    case False
    then show ?thesis
      by (cases "params_id req")
         (simp_all add: guarded_auth[OF assms(1)] patch_tasks_id_empty[OF False e])
  qed
qed

theorem patch_without_fields_witness:
  "auth example_libs example_env (request_of ''t1'' (Num 1) []) = Inr \<lparr>ru_id = 1, ru_role = ''USER''\<rparr>
   \<and> body (request_of ''t1'' (Num 1) []) ''title'' = JUndefined
   \<and> body (request_of ''t1'' (Num 1) []) ''completed'' = JUndefined
   \<and> guarded example_libs example_env (patch_tasks_id 50) example_db (request_of ''t1'' (Num 1) [])
       = Inr (json_response 400 (error_body ''Nada que actualizar''), example_db)"
proof -
  have a: "auth example_libs example_env (request_of ''t1'' (Num 1) []) = Inr \<lparr>ru_id = 1, ru_role = ''USER''\<rparr>"
    by (rule auth_example_t1)
  have t: "body (request_of ''t1'' (Num 1) []) ''title'' = JUndefined"
    and c: "body (request_of ''t1'' (Num 1) []) ''completed'' = JUndefined"
    by (simp_all add: request_of_def body_of_def)
  from patch_without_fields_is_rejected[OF a t c, where now = 50 and d = example_db] a t c
  show ?thesis by (simp add: request_of_def)
qed

lemma patch_tasks_id_reads:
  assumes "params_id req' = params_id req" and "patch_data req' = patch_data req"
  shows "patch_tasks_id now usr d req' = patch_tasks_id now usr d req"
  unfolding patch_tasks_id_def assms by (rule refl)

lemma patch_data_reads_truthiness:
  assumes "\<forall>k. k \<noteq> ''completed'' \<longrightarrow> body req' k = body req k"
    and "body req ''completed'' \<noteq> JUndefined" and "body req' ''completed'' \<noteq> JUndefined"
    and "truthy (body req' ''completed'') = truthy (body req ''completed'')"
  shows "patch_data req' = patch_data req"
proof -
  from assms(1) have t: "body req' ''title'' = body req ''title''" by simp
  show ?thesis
    unfolding patch_data_def t using assms(2,3,4)
    by (simp add: Let_def cong: sum.case_cong if_cong)
qed

lemma patch_tasks_id_200:
  assumes "patch_tasks_id now usr d req = Inr (r, d')" and "res_status r = 200"
  shows "\<exists>data t t'. patch_data req = Inr data \<and> data \<noteq> []
           \<and> task_findFirst d (params_id req) (ru_id usr) = Inr (Some t)
           \<and> find (\<lambda>x. t_id x = t_id t) (tasks d) = Some t'
           \<and> r = json_response 200 (task_row (apply_data data now t'))
           \<and> d' = d\<lparr>tasks := map (\<lambda>x. if t_id x = t_id t then apply_data data now x else x)
                                  (tasks d)\<rparr>"
proof -
  have n: "params_id req \<noteq> NaN"
    using assms by (auto simp: patch_tasks_id_NaN json_response_def)
  obtain data where pd: "patch_data req = Inr data"
    using assms n by (cases "patch_data req") (auto simp: patch_tasks_id_throws)
  have ne: "data \<noteq> []"
    using assms n pd by (auto simp: patch_tasks_id_empty json_response_def)
  obtain t where f: "task_findFirst d (params_id req) (ru_id usr) = Inr (Some t)"
  proof (cases "task_findFirst d (params_id req) (ru_id usr)")
    case (Inl e)
    from patch_tasks_id_lookup_throws[OF n pd ne Inl, of now] assms
    show ?thesis by (simp add: json_response_def)
  next
    case (Inr found)
    show ?thesis
    proof (cases found)
      case None
      with Inr have "task_findFirst d (params_id req) (ru_id usr) = Inr None" by simp
      from patch_tasks_id_missing[OF n pd ne this, of now] assms
      show ?thesis by (simp add: json_response_def)
    next
      case (Some t)
      with Inr that show ?thesis by simp
    qed
  qed
  from patch_tasks_id_found[OF pd ne f, of now] assms(1) pd ne f
  show ?thesis by auto
qed

lemma patch_tasks_id_400:
  assumes "patch_tasks_id now usr d req = Inr (r, d')" and "res_status r = 400"
    and "body req ''completed'' \<noteq> JUndefined"
  shows "params_id req = NaN"
proof (rule ccontr)
  assume n: "params_id req \<noteq> NaN"
  obtain data where pd: "patch_data req = Inr data"
    using assms n by (cases "patch_data req") (auto simp: patch_tasks_id_throws)
  have ne: "data \<noteq> []"
    using pd assms(3) patch_data_Nil_iff[of req] by auto
  show False
  proof (cases "task_findFirst d (params_id req) (ru_id usr)")
    case (Inl e)
    from patch_tasks_id_lookup_throws[OF n pd ne Inl, of now] assms
    show ?thesis by (simp add: json_response_def)
  next
    case (Inr found)
    show ?thesis
    proof (cases found)
      case None
      with Inr have "task_findFirst d (params_id req) (ru_id usr) = Inr None" by simp
      from patch_tasks_id_missing[OF n pd ne this, of now] assms
      show ?thesis by (simp add: json_response_def)
    next
      case (Some t)
      with Inr have "task_findFirst d (params_id req) (ru_id usr) = Inr (Some t)" by simp
      from patch_tasks_id_found[OF pd ne this, of now] assms
      show ?thesis by (auto simp: json_response_def)
    qed
  qed
qed

text \<open>
  C10. Take an authenticated \<^verbatim>\<open>PATCH /tasks/:id\<close> that supplies \<^verbatim>\<open>completed\<close> (any value
  but \<^verbatim>\<open>undefined\<close>).
  \<^item> Whenever it is answered 200, the id is an integer, the returned task and every
    stored row with that id have \<^verbatim>\<open>Boolean(completed)\<close> as their flag, and a row with
    that id and the caller as owner is stored.
  \<^item> It is answered 400 only when the id is not a number: no value of \<^verbatim>\<open>completed\<close> is
    rejected.
  \<^item> The outcome depends on the value only through its truthiness: a second request
    with the same header, id and other properties whose \<^verbatim>\<open>completed\<close> has the same
    truthiness has the same outcome.
  \<^item> It is answered 200 when the lookup finds a task of the caller's and the title
    is absent or can be converted to a string.
  \<^item> The string \<^verbatim>\<open>"false"\<close> is truthy; \<^verbatim>\<open>0\<close>, \<^verbatim>\<open>null\<close> and the empty string are not.
\<close>

theorem completed_is_coerced:
  assumes "auth L pe req = Inr usr" and "body req ''completed'' \<noteq> JUndefined"
  shows "(\<forall>r d'. guarded L pe (patch_tasks_id now) d req = Inr (r, d') \<and> res_status r = 200 \<longrightarrow>
            (\<exists>i updated. params_id req = Num i
               \<and> r = json_response 200 (task_row updated) \<and> t_id updated = i
               \<and> t_completed updated = truthy (body req ''completed'')
               \<and> length (tasks d') = length (tasks d)
               \<and> (\<forall>x \<in> set (tasks d'). t_id x = i \<longrightarrow>
                     t_completed x = truthy (body req ''completed''))
               \<and> (\<exists>x \<in> set (tasks d'). t_id x = i \<and> t_userId x = ru_id usr)))
       \<and> (\<forall>r d'. guarded L pe (patch_tasks_id now) d req = Inr (r, d') \<and> res_status r = 400 \<longrightarrow>
            params_id req = NaN)
       \<and> (\<forall>req'. authorization req' = authorization req \<and> params_id req' = params_id req
              \<and> (\<forall>k. k \<noteq> ''completed'' \<longrightarrow> body req' k = body req k)
              \<and> body req' ''completed'' \<noteq> JUndefined
              \<and> truthy (body req' ''completed'') = truthy (body req ''completed'') \<longrightarrow>
            guarded L pe (patch_tasks_id now) d req' = guarded L pe (patch_tasks_id now) d req)
       \<and> (\<forall>t. (body req ''title'' = JUndefined \<or> (\<exists>s. js_String (body req ''title'') = Inr s))
              \<and> task_findFirst d (params_id req) (ru_id usr) = Inr (Some t) \<longrightarrow>
            (\<exists>updated d'. guarded L pe (patch_tasks_id now) d req
                 = Inr (json_response 200 (task_row updated), d')
               \<and> t_completed updated = truthy (body req ''completed'')))
       \<and> truthy (JStr ''false'') \<and> \<not> truthy (JNum 0) \<and> \<not> truthy JNull \<and> \<not> truthy (JStr [])"
proof -
  note g = guarded_auth[OF assms(1)]
  have c: "\<And>data x. patch_data req = Inr data \<Longrightarrow>
      t_completed (apply_data data now x) = truthy (body req ''completed'')"
    using assms(2) by (simp add: apply_data_def map_of_patch_data_completed)
  have k: "\<And>data x. t_id (apply_data data now x) = t_id x"
      "\<And>data x. t_userId (apply_data data now x) = t_userId x"
    by (simp_all add: apply_data_def)
  have ok: "\<forall>r d'. guarded L pe (patch_tasks_id now) d req = Inr (r, d') \<and> res_status r = 200 \<longrightarrow>
            (\<exists>i updated. params_id req = Num i
               \<and> r = json_response 200 (task_row updated) \<and> t_id updated = i
               \<and> t_completed updated = truthy (body req ''completed'')
               \<and> length (tasks d') = length (tasks d)
               \<and> (\<forall>x \<in> set (tasks d'). t_id x = i \<longrightarrow>
                     t_completed x = truthy (body req ''completed''))
               \<and> (\<exists>x \<in> set (tasks d'). t_id x = i \<and> t_userId x = ru_id usr))"
  proof (intro allI impI)
    fix r d'
    assume h: "guarded L pe (patch_tasks_id now) d req = Inr (r, d') \<and> res_status r = 200"
    then have p: "patch_tasks_id now usr d req = Inr (r, d')" and s: "res_status r = 200"
      by (simp_all add: g)
    from patch_tasks_id_200[OF p s] obtain data t t'
      where pd: "patch_data req = Inr data"
        and f: "task_findFirst d (params_id req) (ru_id usr) = Inr (Some t)"
        and t': "find (\<lambda>x. t_id x = t_id t) (tasks d) = Some t'"
        and r: "r = json_response 200 (task_row (apply_data data now t'))"
        and d': "d' = d\<lparr>tasks := map (\<lambda>x. if t_id x = t_id t then apply_data data now x else x)
                                  (tasks d)\<rparr>"
      by blast
    from task_findFirst_Some_find[OF f]
    have n: "params_id req = Num (t_id t)" and o: "t_userId t = ru_id usr"
      and m: "t \<in> set (tasks d)"
      by simp_all
    from t' have i': "t_id t' = t_id t" by (auto simp: find_Some_iff)
    have all: "\<forall>x \<in> set (tasks d'). t_id x = t_id t \<longrightarrow>
                     t_completed x = truthy (body req ''completed'')"
      unfolding d' using c[OF pd] k by auto
    have ex: "\<exists>x \<in> set (tasks d'). t_id x = t_id t \<and> t_userId x = ru_id usr"
      unfolding d' using m o k
      by (auto intro!: bexI[where x = "apply_data data now t"] simp: image_iff)
    have len: "length (tasks d') = length (tasks d)" unfolding d' by simp
    show "\<exists>i updated. params_id req = Num i
               \<and> r = json_response 200 (task_row updated) \<and> t_id updated = i
               \<and> t_completed updated = truthy (body req ''completed'')
               \<and> length (tasks d') = length (tasks d)
               \<and> (\<forall>x \<in> set (tasks d'). t_id x = i \<longrightarrow>
                     t_completed x = truthy (body req ''completed''))
               \<and> (\<exists>x \<in> set (tasks d'). t_id x = i \<and> t_userId x = ru_id usr)"
      using n r i' k(1) c[OF pd] len all ex
      by (intro exI[where x = "t_id t"] exI[where x = "apply_data data now t'"]) simp
  qed
  have never: "\<forall>r d'. guarded L pe (patch_tasks_id now) d req = Inr (r, d') \<and> res_status r = 400 \<longrightarrow>
            params_id req = NaN"
    using patch_tasks_id_400[of now usr d req] assms(2) by (auto simp: g)
  have same: "\<forall>req'. authorization req' = authorization req \<and> params_id req' = params_id req
              \<and> (\<forall>k. k \<noteq> ''completed'' \<longrightarrow> body req' k = body req k)
              \<and> body req' ''completed'' \<noteq> JUndefined
              \<and> truthy (body req' ''completed'') = truthy (body req ''completed'') \<longrightarrow>
            guarded L pe (patch_tasks_id now) d req' = guarded L pe (patch_tasks_id now) d req"
  proof (intro allI impI)
    fix req' :: request
    assume h: "authorization req' = authorization req \<and> params_id req' = params_id req
              \<and> (\<forall>k. k \<noteq> ''completed'' \<longrightarrow> body req' k = body req k)
              \<and> body req' ''completed'' \<noteq> JUndefined
              \<and> truthy (body req' ''completed'') = truthy (body req ''completed'')"
    then have a': "auth L pe req' = Inr usr"
      using assms(1) auth_reads_header_only[of req' req L pe] by simp
    from h have pd: "patch_data req' = patch_data req"
      using patch_data_reads_truthiness[of req' req] assms(2) by blast
    from h have "params_id req' = params_id req" by simp
    then show "guarded L pe (patch_tasks_id now) d req' = guarded L pe (patch_tasks_id now) d req"
      by (simp add: g guarded_auth[OF a'] patch_tasks_id_reads[OF _ pd])
  qed
  have live: "\<forall>t. (body req ''title'' = JUndefined \<or> (\<exists>s. js_String (body req ''title'') = Inr s))
              \<and> task_findFirst d (params_id req) (ru_id usr) = Inr (Some t) \<longrightarrow>
            (\<exists>updated d'. guarded L pe (patch_tasks_id now) d req
                 = Inr (json_response 200 (task_row updated), d')
               \<and> t_completed updated = truthy (body req ''completed''))"
  proof (intro allI impI)
    fix t
    assume h: "(body req ''title'' = JUndefined \<or> (\<exists>s. js_String (body req ''title'') = Inr s))
              \<and> task_findFirst d (params_id req) (ru_id usr) = Inr (Some t)"
    then obtain data where pd: "patch_data req = Inr data"
      using patch_data_cases[of req] by auto
    have ne: "data \<noteq> []" using pd assms(2) patch_data_Nil_iff[of req] by auto
    from h have f: "task_findFirst d (params_id req) (ru_id usr) = Inr (Some t)" by simp
    from patch_tasks_id_found[OF pd ne f, of now] c[OF pd]
    show "\<exists>updated d'. guarded L pe (patch_tasks_id now) d req
                 = Inr (json_response 200 (task_row updated), d')
               \<and> t_completed updated = truthy (body req ''completed'')"
      by (auto simp: g)
  qed
  have tr: "truthy (JStr ''false'') \<and> \<not> truthy (JNum 0) \<and> \<not> truthy JNull \<and> \<not> truthy (JStr [])"
    by simp
  from ok never same live tr show ?thesis by blast
qed

theorem completed_is_coerced_witness:
  "(\<exists>updated d'.
        guarded example_libs example_env (patch_tasks_id 50) example_db
          (request_of ''t1'' (Num 1) [(''completed'', JStr ''false'')])
          = Inr (json_response 200 (task_row updated), d')
        \<and> t_completed updated = True)
   \<and> (\<exists>updated d'.
        guarded example_libs example_env (patch_tasks_id 50) example_db
          (request_of ''t1'' (Num 1) [(''completed'', JNum 0)])
          = Inr (json_response 200 (task_row updated), d')
        \<and> t_completed updated = False)
   \<and> guarded example_libs example_env (patch_tasks_id 50) example_db
          (request_of ''t1'' (Num 1) [(''completed'', JStr ''false'')])
      = guarded example_libs example_env (patch_tasks_id 50) example_db
          (request_of ''t1'' (Num 1) [(''completed'', JBool True)])"
proof -
  let ?r = "request_of ''t1'' (Num 1) [(''completed'', JStr ''false'')]"
  let ?z = "request_of ''t1'' (Num 1) [(''completed'', JNum 0)]"
  let ?b = "request_of ''t1'' (Num 1) [(''completed'', JBool True)]"
  have b: "body ?r ''completed'' = JStr ''false''" "body ?z ''completed'' = JNum 0"
      "body ?b ''completed'' = JBool True"
      "body ?r ''title'' = JUndefined" "body ?z ''title'' = JUndefined"
    by (simp_all add: request_of_def body_of_def)
  have c: "body ?r ''completed'' \<noteq> JUndefined" "body ?z ''completed'' \<noteq> JUndefined"
    by (simp_all add: b)
  have f: "task_findFirst example_db (params_id ?r) (ru_id \<lparr>ru_id = 1, ru_role = ''USER''\<rparr>)
             = Inr (Some milk)"
      "task_findFirst example_db (params_id ?z) (ru_id \<lparr>ru_id = 1, ru_role = ''USER''\<rparr>)
             = Inr (Some milk)"
    by (simp_all add: task_findFirst_def id_arg_def id_fits_def request_of_def example_db_def
        milk_def)
  have q: "authorization ?b = authorization ?r" "params_id ?b = params_id ?r"
      "\<forall>k. k \<noteq> ''completed'' \<longrightarrow> body ?b k = body ?r k"
      "body ?b ''completed'' \<noteq> JUndefined"
      "truthy (body ?b ''completed'') = truthy (body ?r ''completed'')"
    by (simp_all add: request_of_def body_of_def)
  note R = completed_is_coerced[OF auth_example_t1[of "Num 1" "[(''completed'', JStr ''false'')]"] c(1),
             where d = example_db and now = 50]
  note Z = completed_is_coerced[OF auth_example_t1[of "Num 1" "[(''completed'', JNum 0)]"] c(2),
             where d = example_db and now = 50]
  from R b(4) f(1) have 1: "\<exists>updated d'.
        guarded example_libs example_env (patch_tasks_id 50) example_db ?r
          = Inr (json_response 200 (task_row updated), d')
        \<and> t_completed updated = truthy (body ?r ''completed'')"
    by blast
  from Z b(5) f(2) have 2: "\<exists>updated d'.
        guarded example_libs example_env (patch_tasks_id 50) example_db ?z
          = Inr (json_response 200 (task_row updated), d')
        \<and> t_completed updated = truthy (body ?z ''completed'')"
    by blast
  from R q have 3: "guarded example_libs example_env (patch_tasks_id 50) example_db ?b
      = guarded example_libs example_env (patch_tasks_id 50) example_db ?r"
    by blast
  from 1 2 3 show ?thesis unfolding b by simp
qed

end
